theory Spec2Isabelle
  imports Main "HOL-Library.Word"
begin

section \<open>Update selection during reconciliation (rec\_visibility.c)\<close>

text \<open>
  A shallow embedding of \<^verbatim>\<open>src/third_party/wiredtiger/src/reconcile/rec_visibility.c\<close>:
  \<^verbatim>\<open>__rec_update_stable\<close>, \<^verbatim>\<open>__rec_update_save\<close>, \<^verbatim>\<open>__rec_append_orig_value\<close>,
  \<^verbatim>\<open>__rec_need_save_upd\<close> and \<^verbatim>\<open>__wt_rec_upd_select\<close>. Isabelle names cannot start
  with an underscore, so the leading underscores of the C names are dropped.

  Conventions of the embedding.
  \<^item> An update chain (a singly linked list, newest first) is a list of updates; a
    pointer into the chain is the position of the update (\<open>nat option\<close>, \<open>None\<close> for
    \<^verbatim>\<open>NULL\<close>), and \<^verbatim>\<open>upd->next\<close> is the next position. The only mutation of a chain in
    this file, \<^verbatim>\<open>WT_PUBLISH(upd->next, append)\<close> at the last update, is appending to the list.
  \<^item> Transaction ids and timestamps are 64-bit words, compared unsigned. The counters
    \<^verbatim>\<open>updates_seen\<close> and \<^verbatim>\<open>updates_unstable\<close> and the sizes (\<^verbatim>\<open>size_t\<close>) are 64-bit
    words too: their additions wrap around.
  \<^item> The C functions return an \<^verbatim>\<open>int\<close> and write through their pointer arguments; the
    model returns the return code together with everything written.
  \<^item> \<^verbatim>\<open>WT_ASSERT(session, e)\<close> is compiled to nothing unless the build is a diagnostic
    one. The model is the build without diagnostics: an assertion has no effect, and the
    code after it runs whether or not \<open>e\<close> holds. Where that code reads through a
    pointer that is \<^verbatim>\<open>NULL\<close>, the call ends with the result \<open>NULL_DEREFERENCE\<close>.
  \<^item> Functions, macros and constants that the file uses and that are declared in other
    files (the transaction visibility tests, the reserved transaction ids and
    timestamps, the allocator) are inputs: fields of the record \<open>session\<close>.
\<close>

subsection \<open>Data\<close>

type_synonym txnid_t = "64 word"
type_synonym wt_timestamp_t = "64 word"
type_synonym uint64_t = "64 word"
type_synonym size_t = "64 word"

datatype wt_update_type =
  WT_UPDATE_MODIFY | WT_UPDATE_RESERVE | WT_UPDATE_STANDARD | WT_UPDATE_TOMBSTONE

datatype wt_prepare_state =
  WT_PREPARE_INIT | WT_PREPARE_INPROGRESS | WT_PREPARE_LOCKED | WT_PREPARE_RESOLVED

text \<open>\<^verbatim>\<open>WT_UPDATE\<close>: the fields this file reads. \<open>upd_type\<close> is the field \<^verbatim>\<open>type\<close>,
  \<open>upd_start_ts\<close> the field \<^verbatim>\<open>start_ts\<close>, \<open>restored_for_rollback\<close> the flag
  \<^verbatim>\<open>WT_UPDATE_RESTORED_FOR_ROLLBACK\<close>, \<open>upd_data\<close> the value bytes; \<^verbatim>\<open>next\<close> is the
  list structure.\<close>

record wt_update =
  txnid :: txnid_t
  durable_ts :: wt_timestamp_t
  upd_start_ts :: wt_timestamp_t
  upd_type :: wt_update_type
  prepare_state :: wt_prepare_state
  restored_for_rollback :: bool
  upd_data :: "8 word list"

text \<open>\<^verbatim>\<open>WT_TIME_WINDOW\<close>.\<close>

record wt_time_window =
  durable_start_ts :: wt_timestamp_t
  start_ts :: wt_timestamp_t
  start_txn :: txnid_t
  durable_stop_ts :: wt_timestamp_t
  stop_ts :: wt_timestamp_t
  stop_txn :: txnid_t
  prepare :: bool

datatype wt_cell_type = WT_CELL_DEL | WT_CELL_VALUE

text \<open>\<^verbatim>\<open>WT_CELL_UNPACK\<close>: \<open>cell_tw\<close> is the field \<^verbatim>\<open>tw\<close>, \<open>unpack_prepare\<close> and
  \<open>unpack_overflow\<close> are the flags \<^verbatim>\<open>WT_CELL_UNPACK_PREPARE\<close> and
  \<^verbatim>\<open>WT_CELL_UNPACK_OVERFLOW\<close>, \<open>cell_data\<close> the value \<^verbatim>\<open>__wt_page_cell_data_ref\<close> reads.\<close>

record wt_cell_unpack =
  cell_type :: wt_cell_type
  cell_tw :: wt_time_window
  unpack_prepare :: bool
  unpack_overflow :: bool
  cell_data :: "8 word list"

text \<open>\<^verbatim>\<open>WT_UPDATE_SELECT\<close>.\<close>

record wt_update_select =
  upd :: "nat option"
  tw :: wt_time_window

datatype wt_page_type = WT_PAGE_COL_FIX | WT_PAGE_COL_VAR | WT_PAGE_ROW_LEAF

text \<open>\<^verbatim>\<open>WT_PAGE\<close>: its type and the in-memory size that
  \<^verbatim>\<open>__wt_cache_page_inmem_incr\<close> adds to.\<close>

record wt_page =
  page_type :: wt_page_type
  memory_footprint :: size_t

text \<open>\<^verbatim>\<open>WT_SAVE_UPD\<close>; \<open>supd_ins\<close> and \<open>supd_ripcip\<close> are the references \<^verbatim>\<open>ins\<close> and
  \<^verbatim>\<open>ripcip\<close>.\<close>

record wt_save_upd =
  supd_ins :: "nat option"
  supd_ripcip :: nat
  onpage_upd :: "nat option"
  restore :: bool

text \<open>\<^verbatim>\<open>WT_INSERT\<close>: its address and its update list \<^verbatim>\<open>ins->upd\<close>.\<close>

record wt_insert =
  ins_ref :: nat
  ins_upd :: "wt_update list"

datatype wt_rec_flag =
  WT_REC_VISIBLE_ALL | WT_REC_EVICT | WT_REC_CHECKPOINT | WT_REC_HS | WT_REC_IN_MEMORY
  | WT_REC_CLEAN_AFTER_REC | WT_REC_VISIBILITY_ERR

text \<open>\<^verbatim>\<open>WT_RECONCILE\<close>: the fields this file reads or writes. \<open>supd\<close> holds the
  \<^verbatim>\<open>supd_next\<close> entries in use of the array \<^verbatim>\<open>r->supd\<close>.\<close>

record wt_reconcile =
  page :: wt_page
  flags :: "wt_rec_flag set"
  last_running :: txnid_t
  updates_seen :: uint64_t
  updates_unstable :: uint64_t
  min_skipped_ts :: wt_timestamp_t
  max_ondisk_ts :: wt_timestamp_t
  max_txn :: txnid_t
  max_ts :: wt_timestamp_t
  leave_dirty :: bool
  cache_write_restore :: bool
  supd :: "wt_save_upd list"
  supd_memsize :: size_t

datatype wt_visible_type = WT_VISIBLE_FALSE | WT_VISIBLE_PREPARE | WT_VISIBLE_TRUE

datatype wt_callee =
  SCR_ALLOC | PAGE_CELL_DATA_REF | UPD_ALLOC | UPD_ALLOC_TOMBSTONE | REALLOC_DEF

text \<open>
  What the file takes from the session, the connection and the headers. None of it is
  defined in this file, so all of it is a parameter:
  the reserved transaction ids and timestamps;
  \<open>btree_hs\<close> is \<^verbatim>\<open>F_ISSET(S2BT(session), WT_BTREE_HS)\<close>, \<open>conn_in_memory\<close> is
  \<^verbatim>\<open>F_ISSET(S2C(session), WT_CONN_IN_MEMORY)\<close>;
  \<open>txn_visible_all\<close>, \<open>txn_upd_visible_all\<close>, \<open>txn_visible_id\<close>, \<open>txn_visible\<close> and
  \<open>txn_upd_visible_type\<close> are the results of \<^verbatim>\<open>__wt_txn_visible_all\<close>,
  \<^verbatim>\<open>__wt_txn_upd_visible_all\<close>, \<^verbatim>\<open>__txn_visible_id\<close>, \<^verbatim>\<open>__wt_txn_visible\<close> and
  \<^verbatim>\<open>__wt_txn_upd_visible_type\<close> during the call;
  \<open>WT_UPDATE_DATA_VALUE\<close> and \<open>WT_UPDATE_MEMSIZE\<close> are the macros of these names;
  \<open>upd_alloc_size\<close> is the size \<^verbatim>\<open>__wt_upd_alloc\<close> reports for a new update;
  \<open>call_fails\<close> says which of the fallible callees returns an error.
\<close>

record session =
  WT_TXN_NONE :: txnid_t
  WT_TXN_MAX :: txnid_t
  WT_TXN_ABORTED :: txnid_t
  WT_TS_NONE :: wt_timestamp_t
  WT_TS_MAX :: wt_timestamp_t
  btree_hs :: bool
  conn_in_memory :: bool
  txn_visible_all :: "txnid_t \<Rightarrow> wt_timestamp_t \<Rightarrow> bool"
  txn_upd_visible_all :: "wt_update \<Rightarrow> bool"
  txn_visible_id :: "txnid_t \<Rightarrow> bool"
  txn_visible :: "txnid_t \<Rightarrow> wt_timestamp_t \<Rightarrow> bool"
  txn_upd_visible_type :: "wt_update \<Rightarrow> wt_visible_type"
  WT_UPDATE_DATA_VALUE :: "wt_update \<Rightarrow> bool"
  WT_UPDATE_MEMSIZE :: "wt_update \<Rightarrow> size_t"
  upd_alloc_size :: "wt_update \<Rightarrow> size_t"
  call_fails :: "wt_callee \<Rightarrow> bool"

text \<open>How a call ends: \<open>OK\<close> is the return of 0, \<open>EBUSY\<close> and \<open>WT_PANIC\<close> the returns
  of these errors, \<open>CALLEE_ERROR\<close> the return of the error of a callee that failed
  (\<^verbatim>\<open>WT_RET\<close>, \<^verbatim>\<open>WT_ERR\<close>); \<open>NULL_DEREFERENCE\<close> is a read through \<^verbatim>\<open>NULL\<close>, after which
  the function does not return.\<close>

datatype wt_ret = OK | EBUSY | WT_PANIC | CALLEE_ERROR | NULL_DEREFERENCE

datatype append_site = ONLY_TOMBSTONE | ONPAGE_VALUE

text \<open>
  The state of a call of \<^verbatim>\<open>__wt_rec_upd_select\<close>: the reconciliation \<^verbatim>\<open>*r\<close>, the result
  \<^verbatim>\<open>*upd_select\<close>, the update chain, the locals \<^verbatim>\<open>first_txn_upd\<close>, \<^verbatim>\<open>upd_memsize\<close>,
  \<^verbatim>\<open>max_ts\<close>, \<^verbatim>\<open>max_txn\<close>, \<^verbatim>\<open>has_newer_updates\<close>, \<^verbatim>\<open>upd_saved\<close>, and the return code.
  \<open>orig_value_calls\<close> is not a variable of the source: it records, in order, the call
  sites of \<^verbatim>\<open>__rec_append_orig_value\<close> that were reached (\<open>ONLY_TOMBSTONE\<close> for the call
  in the tombstone branch, \<open>ONPAGE_VALUE\<close> for the call at the end).
\<close>

record frame =
  reconcile :: wt_reconcile
  upd_select :: wt_update_select
  chain :: "wt_update list"
  first_txn_upd :: "nat option"
  upd_memsize :: size_t
  loc_max_ts :: wt_timestamp_t
  loc_max_txn :: txnid_t
  has_newer_updates :: bool
  upd_saved :: bool
  orig_value_calls :: "append_site list"
  ret :: wt_ret

subsection \<open>Time windows\<close>

text \<open>Modelled from the spec: \<^verbatim>\<open>__wt_time_window_init\<close>, \<^verbatim>\<open>__wt_time_window_set_start\<close>
  and \<^verbatim>\<open>__wt_time_window_set_stop\<close> are not in this file. The spec gives the defaults
  \<open>start = (NONE, NONE)\<close>, \<open>stop = (MAX, MAX)\<close>, and has \<open>set_start\<close> and \<open>set_stop\<close>
  take the start, respectively the stop, of the window from an update: its timestamp,
  its transaction id and its durable timestamp. The defaults of the durable timestamps
  and of the prepare flag, which the spec leaves open, are \<open>NONE\<close> and false.\<close>

definition wt_time_window_init :: "session \<Rightarrow> wt_time_window" where
  "wt_time_window_init s =
     \<lparr>durable_start_ts = WT_TS_NONE s, start_ts = WT_TS_NONE s, start_txn = WT_TXN_NONE s,
      durable_stop_ts = WT_TS_NONE s, stop_ts = WT_TS_MAX s, stop_txn = WT_TXN_MAX s,
      prepare = False\<rparr>"

definition wt_time_window_set_start :: "wt_time_window \<Rightarrow> wt_update \<Rightarrow> wt_time_window" where
  "wt_time_window_set_start w u =
     w\<lparr>durable_start_ts := durable_ts u, start_ts := upd_start_ts u, start_txn := txnid u\<rparr>"

definition wt_time_window_set_stop :: "wt_time_window \<Rightarrow> wt_update \<Rightarrow> wt_time_window" where
  "wt_time_window_set_stop w u =
     w\<lparr>durable_stop_ts := durable_ts u, stop_ts := upd_start_ts u, stop_txn := txnid u\<rparr>"

subsection \<open>\<^verbatim>\<open>__rec_update_stable\<close>\<close>

definition rec_update_stable :: "session \<Rightarrow> wt_reconcile \<Rightarrow> wt_update \<Rightarrow> bool" where
  "rec_update_stable s r u =
     (if WT_REC_VISIBLE_ALL \<in> flags r then txn_upd_visible_all s u
      else txn_upd_visible_type s u = WT_VISIBLE_TRUE \<and> txn_visible s (txnid u) (upd_start_ts u))"

subsection \<open>\<^verbatim>\<open>__rec_update_save\<close>\<close>

text \<open>The two assertions at the top of the function have no effect.\<close>

definition rec_update_save ::
  "session \<Rightarrow> wt_reconcile \<Rightarrow> nat option \<Rightarrow> nat \<Rightarrow> nat option \<Rightarrow> bool \<Rightarrow> size_t
    \<Rightarrow> wt_ret \<times> wt_reconcile" where
  "rec_update_save s r ins_p rip onpage supd_restore memsize =
     (if call_fails s REALLOC_DEF then (CALLEE_ERROR, r)
      else (OK, r\<lparr>supd := supd r @
                     [\<lparr>supd_ins = ins_p, supd_ripcip = rip, onpage_upd = onpage,
                       restore = supd_restore\<rparr>],
                   supd_memsize := supd_memsize r + memsize\<rparr>))"

subsection \<open>\<^verbatim>\<open>__rec_append_orig_value\<close>\<close>

text \<open>
  The review loop \<^verbatim>\<open>for (;; upd = upd->next)\<close> over the update \<open>u\<close> and the updates
  \<open>us\<close> after it. \<open>NO_WORK\<close> is one of its four \<^verbatim>\<open>return (0)\<close>; \<open>REVIEWED oldest\<close> is
  the \<^verbatim>\<open>break\<close> at the last update, with the value of \<^verbatim>\<open>oldest_upd\<close> (the update it
  points to, \<open>None\<close> for \<^verbatim>\<open>NULL\<close>).
\<close>

datatype review = NO_WORK | REVIEWED "wt_update option"

fun review_upd_list ::
  "session \<Rightarrow> wt_cell_unpack \<Rightarrow> wt_update \<Rightarrow> wt_update list \<Rightarrow> wt_update option \<Rightarrow> review" where
  "review_upd_list s unpack u us oldest_upd =
     (if restored_for_rollback u then NO_WORK
      else if unpack_prepare unpack \<and> upd_type u \<noteq> WT_UPDATE_TOMBSTONE then NO_WORK
      else if start_ts (cell_tw unpack) = upd_start_ts u \<and> start_txn (cell_tw unpack) = txnid u
              \<and> upd_type u \<noteq> WT_UPDATE_TOMBSTONE then NO_WORK
      else if WT_UPDATE_DATA_VALUE s u \<and> txn_upd_visible_all s u then NO_WORK
      else
        let oldest_upd' = (if txnid u \<noteq> WT_TXN_ABORTED s then Some u else oldest_upd) in
        (case us of
           [] \<Rightarrow> REVIEWED oldest_upd'
         | u' # us' \<Rightarrow> review_upd_list s unpack u' us' oldest_upd'))"

declare review_upd_list.simps [simp del]

text \<open>The update \<^verbatim>\<open>__wt_upd_alloc\<close> returns for the cell's value, with the three fields
  the function then assigns; the other fields of a new update are zero.\<close>

definition orig_value_upd :: "wt_cell_unpack \<Rightarrow> wt_update" where
  "orig_value_upd unpack =
     \<lparr>txnid = start_txn (cell_tw unpack), durable_ts = durable_start_ts (cell_tw unpack),
      upd_start_ts = start_ts (cell_tw unpack), upd_type = WT_UPDATE_STANDARD,
      prepare_state = WT_PREPARE_INIT, restored_for_rollback = False,
      upd_data = cell_data unpack\<rparr>"

text \<open>The update \<^verbatim>\<open>__wt_upd_alloc_tombstone\<close> returns, with the three fields assigned
  from the cell's stop.\<close>

definition orig_tombstone_upd :: "wt_cell_unpack \<Rightarrow> wt_update" where
  "orig_tombstone_upd unpack =
     \<lparr>txnid = stop_txn (cell_tw unpack), durable_ts = durable_stop_ts (cell_tw unpack),
      upd_start_ts = stop_ts (cell_tw unpack), upd_type = WT_UPDATE_TOMBSTONE,
      prepare_state = WT_PREPARE_INIT, restored_for_rollback = False, upd_data = []\<rparr>"

text \<open>\<^verbatim>\<open>(unpack->tw.stop_ts != WT_TS_MAX || unpack->tw.stop_txn != WT_TXN_MAX)\<close>\<close>

definition has_stop_pair :: "session \<Rightarrow> wt_cell_unpack \<Rightarrow> bool" where
  "has_stop_pair s unpack \<longleftrightarrow>
     stop_ts (cell_tw unpack) \<noteq> WT_TS_MAX s \<or> stop_txn (cell_tw unpack) \<noteq> WT_TXN_MAX s"

text \<open>
  The function gets the page, the chain \<open>c\<close>, the pointer \<^verbatim>\<open>upd\<close> into it and the cell,
  and returns how it ends, the page and the chain. A position past the end of the chain
  stands for no update, like \<^verbatim>\<open>NULL\<close>. The assertion on entry has no effect: with
  \<^verbatim>\<open>upd\<close> \<^verbatim>\<open>NULL\<close> the first test of the loop reads through it; with \<^verbatim>\<open>unpack\<close> \<^verbatim>\<open>NULL\<close>
  the second test does, unless the first one has returned; a cell of type
  \<^verbatim>\<open>WT_CELL_DEL\<close> is treated like any other. Where \<^verbatim>\<open>oldest_upd\<close> is still \<^verbatim>\<open>NULL\<close>,
  \<^verbatim>\<open>oldest_upd->type\<close> reads through it. The assertion in the last \<^verbatim>\<open>else\<close> has no
  effect.
\<close>

definition rec_append_orig_value ::
  "session \<Rightarrow> wt_page \<Rightarrow> wt_update list \<Rightarrow> nat option \<Rightarrow> wt_cell_unpack option
    \<Rightarrow> wt_ret \<times> wt_page \<times> wt_update list" where
  "rec_append_orig_value s pg c upd_p unpack_p =
     (case upd_p of
        None \<Rightarrow> (NULL_DEREFERENCE, pg, c)
      | Some i \<Rightarrow>
          (case drop i c of
             [] \<Rightarrow> (NULL_DEREFERENCE, pg, c)
           | u # us \<Rightarrow>
               (case unpack_p of
                  None \<Rightarrow>
                    if restored_for_rollback u then (OK, pg, c) else (NULL_DEREFERENCE, pg, c)
                | Some unpack \<Rightarrow>
                    (case review_upd_list s unpack u us None of
                       NO_WORK \<Rightarrow> (OK, pg, c)
                     | REVIEWED oldest_upd \<Rightarrow>
                         if has_stop_pair s unpack
                            \<and> txn_visible_all s (stop_txn (cell_tw unpack))
                                 (stop_ts (cell_tw unpack))
                         then (OK, pg, c)
                         else if call_fails s SCR_ALLOC then (CALLEE_ERROR, pg, c)
                         else if call_fails s PAGE_CELL_DATA_REF then (CALLEE_ERROR, pg, c)
                         else if call_fails s UPD_ALLOC then (CALLEE_ERROR, pg, c)
                         else
                           let append = orig_value_upd unpack;
                               total_size = upd_alloc_size s append
                           in
                           if has_stop_pair s unpack then
                             (case oldest_upd of
                                None \<Rightarrow> (NULL_DEREFERENCE, pg, c)
                              | Some oldest \<Rightarrow>
                                  if upd_type oldest \<noteq> WT_UPDATE_TOMBSTONE then
                                    if call_fails s UPD_ALLOC_TOMBSTONE
                                    then (CALLEE_ERROR, pg, c)
                                    else
                                      let tombstone = orig_tombstone_upd unpack;
                                          total_size' =
                                            total_size + upd_alloc_size s tombstone
                                      in (OK,
                                          pg\<lparr>memory_footprint :=
                                               memory_footprint pg + total_size'\<rparr>,
                                          c @ [tombstone, append])
                                  else (OK,
                                        pg\<lparr>memory_footprint :=
                                             memory_footprint pg + total_size\<rparr>,
                                        c @ [append]))
                           else (OK,
                                 pg\<lparr>memory_footprint := memory_footprint pg + total_size\<rparr>,
                                 c @ [append])))))"

subsection \<open>\<^verbatim>\<open>__rec_need_save_upd\<close>\<close>

definition rec_need_save_upd ::
  "session \<Rightarrow> wt_reconcile \<Rightarrow> wt_update_select \<Rightarrow> bool \<Rightarrow> bool" where
  "rec_need_save_upd s r sel has_newer =
     (if prepare (tw sel) then True
      else if WT_REC_EVICT \<in> flags r \<and> has_newer then True
      else if WT_REC_HS \<notin> flags r \<and> WT_REC_IN_MEMORY \<notin> flags r
              \<and> page_type (page r) \<noteq> WT_PAGE_COL_FIX then False
      else if WT_REC_CHECKPOINT \<in> flags r \<and> upd sel = None then False
      else \<not> txn_visible_all s (stop_txn (tw sel)) (stop_ts (tw sel))
           \<and> \<not> txn_visible_all s (start_txn (tw sel)) (start_ts (tw sel)))"

subsection \<open>\<^verbatim>\<open>__wt_rec_upd_select\<close>: the walk of the update chain\<close>

text \<open>The test of the walk for an update that was not committed before reconciliation
  started:
  \<^verbatim>\<open>!is_hs_page && (F_ISSET(r, WT_REC_VISIBLE_ALL) ? WT_TXNID_LE(r->last_running, txnid) : !__txn_visible_id(session, txnid))\<close>.\<close>

definition uncommitted :: "session \<Rightarrow> wt_reconcile \<Rightarrow> wt_update \<Rightarrow> bool" where
  "uncommitted s r u \<longleftrightarrow>
     \<not> btree_hs s
     \<and> (if WT_REC_VISIBLE_ALL \<in> flags r then last_running r \<le> txnid u
        else \<not> txn_visible_id s (txnid u))"

text \<open>\<^verbatim>\<open>upd->prepare_state == WT_PREPARE_LOCKED || upd->prepare_state == WT_PREPARE_INPROGRESS\<close>\<close>

definition prepared :: "wt_update \<Rightarrow> bool" where
  "prepared u \<longleftrightarrow> prepare_state u = WT_PREPARE_LOCKED \<or> prepare_state u = WT_PREPARE_INPROGRESS"

text \<open>How one pass through the loop body ends: \<open>CONTINUE\<close> goes on with the next update
  (the \<^verbatim>\<open>continue\<close> statements and the end of the body); \<open>LEAVE\<close> leaves the loop (the
  \<^verbatim>\<open>break\<close>, and the \<^verbatim>\<open>return\<close> with an error, which sets \<open>ret\<close>).\<close>

datatype 'a loop_ctl = CONTINUE 'a | LEAVE 'a

text \<open>The body of \<^verbatim>\<open>for (upd = first_upd; upd != NULL; upd = upd->next)\<close> for the update
  \<open>u\<close> at position \<open>i\<close>. The two assertions on prepared updates have no effect: an
  eviction goes on to select a prepared update, whatever its state.\<close>

definition walk_body :: "session \<Rightarrow> wt_update \<Rightarrow> nat \<Rightarrow> frame \<Rightarrow> frame loop_ctl" where
  "walk_body s u i f =
     (if txnid u = WT_TXN_ABORTED s then CONTINUE f
      else
        let f1 = f\<lparr>reconcile := (reconcile f)\<lparr>updates_seen := updates_seen (reconcile f) + 1\<rparr>,
                   upd_memsize := upd_memsize f + WT_UPDATE_MEMSIZE s u,
                   first_txn_upd := (if first_txn_upd f = None then Some i else first_txn_upd f),
                   loc_max_txn := (if loc_max_txn f < txnid u then txnid u else loc_max_txn f)\<rparr>
        in
        if uncommitted s (reconcile f1) u then
          (if upd (upd_select f1) \<noteq> None then LEAVE (f1\<lparr>ret := EBUSY\<rparr>)
           else CONTINUE (f1\<lparr>has_newer_updates := True\<rparr>))
        else if prepared u \<and> WT_REC_EVICT \<notin> flags (reconcile f1) then
          CONTINUE
            (f1\<lparr>has_newer_updates := True,
                loc_max_ts := (if upd_start_ts u > loc_max_ts f1 then upd_start_ts u
                               else loc_max_ts f1),
                reconcile := (reconcile f1)
                  \<lparr>min_skipped_ts := (if upd_start_ts u < min_skipped_ts (reconcile f1)
                                      then upd_start_ts u
                                      else min_skipped_ts (reconcile f1))\<rparr>\<rparr>)
        else
          let f2 = f1\<lparr>loc_max_ts := (if upd_start_ts u > loc_max_ts f1 then upd_start_ts u
                                      else loc_max_ts f1),
                      upd_select := (if upd (upd_select f1) = None
                                     then (upd_select f1)\<lparr>upd := Some i\<rparr>
                                     else upd_select f1)\<rparr>
          in
          if WT_REC_EVICT \<in> flags (reconcile f2) \<and> \<not> rec_update_stable s (reconcile f2) u
          then CONTINUE
                 (f2\<lparr>reconcile := (reconcile f2)
                       \<lparr>updates_unstable := updates_unstable (reconcile f2) + 1\<rparr>\<rparr>)
          else if WT_REC_EVICT \<notin> flags (reconcile f2) then LEAVE f2
          else CONTINUE f2)"

text \<open>The loop, over the updates \<open>us\<close> from position \<open>i\<close> on.\<close>

fun upd_walk :: "session \<Rightarrow> wt_update list \<Rightarrow> nat \<Rightarrow> frame \<Rightarrow> frame" where
  "upd_walk s [] i f = f"
| "upd_walk s (u # us) i f =
     (case walk_body s u i f of
        CONTINUE f' \<Rightarrow> upd_walk s us (Suc i) f'
      | LEAVE f' \<Rightarrow> f')"

subsection \<open>\<^verbatim>\<open>__wt_rec_upd_select\<close>: after the walk\<close>

text \<open>\<^verbatim>\<open>while (upd->next != NULL && upd->next->txnid == WT_TXN_ABORTED) upd = upd->next;\<close>
  with \<open>us\<close> the updates after position \<open>i\<close>: the position \<^verbatim>\<open>upd\<close> ends at.\<close>

fun skip_aborted :: "session \<Rightarrow> wt_update list \<Rightarrow> nat \<Rightarrow> nat" where
  "skip_aborted s [] i = i"
| "skip_aborted s (u # us) i =
     (if txnid u = WT_TXN_ABORTED s then skip_aborted s us (Suc i) else i)"

text \<open>\<^verbatim>\<open>p->next\<close> for the update at position \<open>i\<close> of the chain \<open>c\<close>.\<close>

definition next_upd :: "wt_update list \<Rightarrow> nat \<Rightarrow> nat option" where
  "next_upd c i = (if Suc i < length c then Some (Suc i) else None)"

text \<open>
  The branch for a chain whose only update that is not aborted is a tombstone: from the
  call of \<^verbatim>\<open>__rec_append_orig_value\<close> to
  \<^verbatim>\<open>__wt_time_window_set_start(select_tw, last_upd->next)\<close>. \<open>j\<close> is the position of
  \<^verbatim>\<open>tombstone\<close> and \<open>k\<close> the position of \<^verbatim>\<open>last_upd\<close>. The assertions before and
  after the call have no effect; when \<^verbatim>\<open>last_upd->next\<close> is still \<^verbatim>\<open>NULL\<close> after the
  call, setting the start of the window reads through it.
\<close>

definition select_orig_value ::
  "session \<Rightarrow> wt_cell_unpack option \<Rightarrow> nat \<Rightarrow> nat \<Rightarrow> frame \<Rightarrow> frame" where
  "select_orig_value s vpack j k f =
     (case rec_append_orig_value s (page (reconcile f)) (chain f) (Some j) vpack of
        (rc, pg, c) \<Rightarrow>
          let f5 = f\<lparr>reconcile := (reconcile f)\<lparr>page := pg\<rparr>,
                    chain := c,
                    orig_value_calls := orig_value_calls f @ [ONLY_TOMBSTONE]\<rparr>
          in
          if rc \<noteq> OK then f5\<lparr>ret := rc\<rparr>
          else
            (case next_upd c k of
               None \<Rightarrow> f5\<lparr>ret := NULL_DEREFERENCE\<rparr>
             | Some n \<Rightarrow>
                 f5\<lparr>upd_select :=
                      \<lparr>upd = Some n,
                       tw = wt_time_window_set_start (tw (upd_select f5)) (c ! n)\<rparr>\<rparr>))"

text \<open>
  The branch for a selected tombstone at position \<open>j\<close> that is not globally visible:
  the body of \<^verbatim>\<open>if (!__wt_txn_visible_all(session, upd->txnid, upd->start_ts))\<close> and,
  since \<^verbatim>\<open>upd\<close> may be \<^verbatim>\<open>NULL\<close> after it, the \<^verbatim>\<open>if (upd != NULL) ... else if ...\<close> that
  follows.
\<close>

definition select_before_tombstone ::
  "session \<Rightarrow> wt_cell_unpack option \<Rightarrow> nat \<Rightarrow> frame \<Rightarrow> frame" where
  "select_before_tombstone s vpack j f =
     (let k = skip_aborted s (drop (Suc j) (chain f)) j in
      case next_upd (chain f) k of
        Some n \<Rightarrow>
          f\<lparr>upd_select :=
              \<lparr>upd = Some n,
               tw = wt_time_window_set_start (tw (upd_select f)) (chain f ! n)\<rparr>\<rparr>
      | None \<Rightarrow>
          let f4 = f\<lparr>upd_select := (upd_select f)\<lparr>upd := None\<rparr>\<rparr> in
          if stop_ts (tw (upd_select f4)) \<noteq> WT_TS_NONE s
             \<or> stop_txn (tw (upd_select f4)) \<noteq> WT_TXN_NONE s
          then select_orig_value s vpack j k f4
          else f4)"

text \<open>
  The selected update and the time window: from
  \<^verbatim>\<open>if (upd != NULL && upd->start_ts > r->max_ondisk_ts)\<close> to the end of the block
  \<^verbatim>\<open>if (upd != NULL) { ... }\<close> that follows it.
\<close>

definition select_window :: "session \<Rightarrow> wt_cell_unpack option \<Rightarrow> frame \<Rightarrow> frame" where
  "select_window s vpack f =
     (case upd (upd_select f) of
        None \<Rightarrow> f
      | Some j \<Rightarrow>
          let u = chain f ! j;
              f1 = (if upd_start_ts u > max_ondisk_ts (reconcile f)
                    then f\<lparr>reconcile := (reconcile f)\<lparr>max_ondisk_ts := upd_start_ts u\<rparr>\<rparr>
                    else f);
              f2 = (if prepare_state u = WT_PREPARE_INPROGRESS
                    then f1\<lparr>upd_select := (upd_select f1)\<lparr>tw := (tw (upd_select f1))\<lparr>prepare := True\<rparr>\<rparr>\<rparr>
                    else f1)
          in
          if upd_type u = WT_UPDATE_TOMBSTONE then
            let f3 = f2\<lparr>upd_select :=
                        (upd_select f2)\<lparr>tw := wt_time_window_set_stop (tw (upd_select f2)) u\<rparr>\<rparr>
            in
            if \<not> txn_visible_all s (txnid u) (upd_start_ts u)
            then select_before_tombstone s vpack j f3
            else f3\<lparr>upd_select :=
                      (upd_select f3)\<lparr>tw := wt_time_window_set_start (tw (upd_select f3)) u\<rparr>\<rparr>
          else f2\<lparr>upd_select :=
                    (upd_select f2)\<lparr>tw := wt_time_window_set_start (tw (upd_select f2)) u\<rparr>\<rparr>)"

text \<open>The repair of a stop that is earlier than the start:
  \<^verbatim>\<open>if (select_tw->stop_ts < select_tw->start_ts || (select_tw->stop_ts == select_tw->start_ts && select_tw->stop_txn < select_tw->start_txn)) { ... }\<close>.\<close>

definition fix_out_of_order :: "wt_time_window \<Rightarrow> wt_time_window" where
  "fix_out_of_order w =
     (if stop_ts w < start_ts w \<or> (stop_ts w = start_ts w \<and> stop_txn w < start_txn w)
      then w\<lparr>durable_start_ts := durable_stop_ts w, start_ts := stop_ts w,
             start_txn := stop_txn w\<rparr>
      else w)"

text \<open>\<^verbatim>\<open>r->max_txn\<close>, \<^verbatim>\<open>r->max_ts\<close> and \<^verbatim>\<open>r->leave_dirty\<close>.\<close>

definition track_page :: "frame \<Rightarrow> frame" where
  "track_page f =
     f\<lparr>reconcile := (reconcile f)
         \<lparr>max_txn := (if max_txn (reconcile f) < loc_max_txn f then loc_max_txn f
                      else max_txn (reconcile f)),
          max_ts := (if loc_max_ts f > max_ts (reconcile f) then loc_max_ts f
                     else max_ts (reconcile f)),
          leave_dirty := (if has_newer_updates f then True else leave_dirty (reconcile f))\<rparr>\<rparr>"

text \<open>The block \<^verbatim>\<open>if (__rec_need_save_upd(session, r, upd_select, has_newer_updates)) { ... }\<close>.\<close>

definition save_upd :: "session \<Rightarrow> nat option \<Rightarrow> nat \<Rightarrow> frame \<Rightarrow> frame" where
  "save_upd s ins_p rip f =
     (if rec_need_save_upd s (reconcile f) (upd_select f) (has_newer_updates f) then
        let r = reconcile f;
            supd_restore = (WT_REC_EVICT \<in> flags r
              \<and> (has_newer_updates f \<or> conn_in_memory s \<or> page_type (page r) = WT_PAGE_COL_FIX));
            r1 = (if supd_restore then r\<lparr>cache_write_restore := True\<rparr> else r);
            onpage = (case upd (upd_select f) of
                        None \<Rightarrow> None
                      | Some j \<Rightarrow>
                          if upd_type (chain f ! j) = WT_UPDATE_TOMBSTONE then None else Some j)
        in
        (case rec_update_save s r1 ins_p rip onpage supd_restore (upd_memsize f) of
           (rc, r2) \<Rightarrow>
             if rc \<noteq> OK then f\<lparr>reconcile := r2, ret := rc\<rparr>
             else f\<lparr>reconcile := r2, upd_saved := True\<rparr>)
      else f)"

text \<open>The end of the function, the copy of the on-page value:
  \<^verbatim>\<open>if (upd_select->upd != NULL && vpack != NULL && vpack->type != WT_CELL_DEL && (upd_saved || F_ISSET(vpack, WT_CELL_UNPACK_OVERFLOW)))\<close>.
  The assertion before it has no effect.\<close>

definition append_onpage_value :: "session \<Rightarrow> wt_cell_unpack option \<Rightarrow> frame \<Rightarrow> frame" where
  "append_onpage_value s vpack f =
     (case (upd (upd_select f), vpack) of
        (Some j, Some vp) \<Rightarrow>
          if cell_type vp \<noteq> WT_CELL_DEL \<and> (upd_saved f \<or> unpack_overflow vp) then
            (case rec_append_orig_value s (page (reconcile f)) (chain f) (Some j) (Some vp) of
               (rc, pg, c) \<Rightarrow>
                 f\<lparr>reconcile := (reconcile f)\<lparr>page := pg\<rparr>, chain := c,
                   orig_value_calls := orig_value_calls f @ [ONPAGE_VALUE], ret := rc\<rparr>)
          else f
      | _ \<Rightarrow> f)"

subsection \<open>\<^verbatim>\<open>__wt_rec_upd_select\<close>\<close>

text \<open>The state after the initialisations at the top of the function.\<close>

definition frame_init :: "session \<Rightarrow> wt_reconcile \<Rightarrow> frame" where
  "frame_init s r =
     \<lparr>reconcile = r,
      upd_select = \<lparr>upd = None, tw = wt_time_window_init s\<rparr>,
      chain = [],
      first_txn_upd = None,
      upd_memsize = 0,
      loc_max_ts = WT_TS_NONE s,
      loc_max_txn = WT_TXN_NONE s,
      has_newer_updates = False,
      upd_saved = False,
      orig_value_calls = [],
      ret = OK\<rparr>"

text \<open>The function from the repair of the time window on; \<open>f2\<close> is the state after the
  selection of the update and its window (an error there ends the call).\<close>

definition finish ::
  "session \<Rightarrow> nat option \<Rightarrow> nat \<Rightarrow> wt_cell_unpack option \<Rightarrow> frame \<Rightarrow> frame" where
  "finish s ins_p rip vpack f2 =
     (if ret f2 \<noteq> OK then f2
      else
        let f3 = track_page
                   (f2\<lparr>upd_select :=
                        (upd_select f2)\<lparr>tw := fix_out_of_order (tw (upd_select f2))\<rparr>\<rparr>);
            f4 = save_upd s ins_p rip f3
        in if ret f4 \<noteq> OK then f4 else append_onpage_value s vpack f4)"

text \<open>The function from the end of the walk on; \<open>f\<close> is the state the walk left. The
  three assertions on the selected update have no effect.\<close>

definition after_walk ::
  "session \<Rightarrow> nat option \<Rightarrow> nat \<Rightarrow> wt_cell_unpack option \<Rightarrow> frame \<Rightarrow> frame" where
  "after_walk s ins_p rip vpack f =
     (if first_txn_upd f = None then f
      else if has_newer_updates f
              \<and> (WT_REC_CLEAN_AFTER_REC \<in> flags (reconcile f)
                  \<or> WT_REC_VISIBILITY_ERR \<in> flags (reconcile f))
      then (if WT_REC_VISIBILITY_ERR \<in> flags (reconcile f) then f\<lparr>ret := WT_PANIC\<rparr>
            else f\<lparr>ret := EBUSY\<rparr>)
      else finish s ins_p rip vpack (select_window s vpack f))"

text \<open>The update list the function works on: \<^verbatim>\<open>ins->upd\<close> when it is called with a
  \<^verbatim>\<open>WT_INSERT\<close>, otherwise the list \<^verbatim>\<open>WT_ROW_UPDATE(page, ripcip)\<close> finds (\<open>[]\<close> for
  \<^verbatim>\<open>NULL\<close>).\<close>

definition first_upd :: "wt_insert option \<Rightarrow> wt_update list \<Rightarrow> wt_update list" where
  "first_upd ins_p row_update = (case ins_p of Some i \<Rightarrow> ins_upd i | None \<Rightarrow> row_update)"

text \<open>The walk of the list \<open>c\<close> from its head, in the state after the initialisations.\<close>

definition walk_chain :: "session \<Rightarrow> wt_reconcile \<Rightarrow> wt_update list \<Rightarrow> frame" where
  "walk_chain s r c = upd_walk s c 0 ((frame_init s r)\<lparr>chain := c\<rparr>)"

text \<open>
  The function. \<open>ins_p\<close> is the argument \<^verbatim>\<open>ins\<close> (\<open>None\<close> for \<^verbatim>\<open>NULL\<close>), \<open>rip\<close> the
  reference \<^verbatim>\<open>ripcip\<close>, \<open>row_update\<close> the list \<^verbatim>\<open>WT_ROW_UPDATE(page, ripcip)\<close> finds,
  \<open>vpack\<close> the cell. What \<^verbatim>\<open>*upd_select\<close> held before the call is overwritten at once,
  so it is not an argument.
\<close>

definition wt_rec_upd_select ::
  "session \<Rightarrow> wt_reconcile \<Rightarrow> wt_insert option \<Rightarrow> nat \<Rightarrow> wt_update list
    \<Rightarrow> wt_cell_unpack option \<Rightarrow> frame" where
  "wt_rec_upd_select s r ins_p rip row_update vpack =
     (if ins_p = None \<and> row_update = [] then frame_init s r
      else
        let f1 = walk_chain s r (first_upd ins_p row_update)
        in if ret f1 \<noteq> OK then f1
           else after_walk s (map_option ins_ref ins_p) rip vpack f1)"

section \<open>Notions used to state the properties\<close>

text \<open>An ordered rule set: the first rule whose condition holds gives the decision;
  when none holds, the decision is the default.\<close>

fun first_rule :: "(bool \<times> bool) list \<Rightarrow> bool \<Rightarrow> bool" where
  "first_rule [] d = d"
| "first_rule ((c, v) # rs) d = (if c then v else first_rule rs d)"

text \<open>The rules of the save decision, in order, as condition and decision (true: save):
  a prepared selection is saved; under \<open>EVICT\<close> with newer updates it is saved; with no
  history store for this reconciliation it is not saved; under \<open>CHECKPOINT\<close> with an
  empty selection it is not saved.\<close>

definition save_rules :: "wt_reconcile \<Rightarrow> wt_update_select \<Rightarrow> bool \<Rightarrow> (bool \<times> bool) list" where
  "save_rules r sel has_newer =
     [(prepare (tw sel), True),
      (WT_REC_EVICT \<in> flags r \<and> has_newer, True),
      (WT_REC_HS \<notin> flags r \<and> WT_REC_IN_MEMORY \<notin> flags r
         \<and> page_type (page r) \<noteq> WT_PAGE_COL_FIX, False),
      (WT_REC_CHECKPOINT \<in> flags r \<and> upd sel = None, False)]"

text \<open>The state a pass through the loop body hands on, whichever way it ends.\<close>

fun frame_of :: "frame loop_ctl \<Rightarrow> frame" where
  "frame_of (CONTINUE f) = f"
| "frame_of (LEAVE f) = f"

text \<open>\<open>start \<le> stop\<close> for a time window, in the order of the pairs (timestamp,
  transaction id): first by timestamp, then by transaction id.\<close>

definition tw_ordered :: "wt_time_window \<Rightarrow> bool" where
  "tw_ordered w \<longleftrightarrow>
     start_ts w < stop_ts w \<or> (start_ts w = stop_ts w \<and> start_txn w \<le> stop_txn w)"




text \<open>The time window as composed from the selected update and tombstone of the chain
  \<open>c\<close>, before the repair: the value of \<^verbatim>\<open>*select_tw\<close> when the function reaches the test
  for a stop that is earlier than the start.\<close>

definition composed_tw ::
  "session \<Rightarrow> wt_reconcile \<Rightarrow> wt_update list \<Rightarrow> wt_cell_unpack option \<Rightarrow> wt_time_window" where
  "composed_tw s r c vpack = tw (upd_select (select_window s vpack (walk_chain s r c)))"

subsection \<open>Example inputs\<close>

text \<open>A session with the reserved values of WiredTiger (\<open>WT_TXN_NONE\<close> and \<open>WT_TS_NONE\<close>
  are 0, \<open>WT_TS_MAX\<close> and \<open>WT_TXN_ABORTED\<close> are \<open>2^64 - 1\<close>, \<open>WT_TXN_MAX\<close> is
  \<open>2^64 - 11\<close>), on an ordinary tree, in which the transactions below 10 are visible to
  the reconciliation, and the transactions below 5 with a timestamp up to 30 are
  visible to everyone.\<close>

definition ex_session :: session where
  "ex_session =
     \<lparr>WT_TXN_NONE = 0, WT_TXN_MAX = 18446744073709551605,
      WT_TXN_ABORTED = 18446744073709551615,
      WT_TS_NONE = 0, WT_TS_MAX = 18446744073709551615,
      btree_hs = False, conn_in_memory = False,
      txn_visible_all = (\<lambda>t ts. t < 5 \<and> ts \<le> 30),
      txn_upd_visible_all = (\<lambda>u. txnid u < 5 \<and> durable_ts u \<le> 30),
      txn_visible_id = (\<lambda>t. t < 10),
      txn_visible = (\<lambda>t ts. t < 10),
      txn_upd_visible_type = (\<lambda>u. WT_VISIBLE_TRUE),
      WT_UPDATE_DATA_VALUE =
        (\<lambda>u. upd_type u = WT_UPDATE_STANDARD \<or> upd_type u = WT_UPDATE_TOMBSTONE),
      WT_UPDATE_MEMSIZE = (\<lambda>u. 40 + of_nat (length (upd_data u))),
      upd_alloc_size = (\<lambda>u. 40 + of_nat (length (upd_data u))),
      call_fails = (\<lambda>c. False)\<rparr>"

text \<open>A reconciliation of a row-store leaf page with the given flags, nothing tracked
  yet.\<close>

definition ex_reconcile :: "wt_rec_flag set \<Rightarrow> wt_reconcile" where
  "ex_reconcile fl =
     \<lparr>page = \<lparr>page_type = WT_PAGE_ROW_LEAF, memory_footprint = 0\<rparr>, flags = fl,
      last_running = 10, updates_seen = 0, updates_unstable = 0,
      min_skipped_ts = 18446744073709551615, max_ondisk_ts = 0, max_txn = 0, max_ts = 0,
      leave_dirty = False, cache_write_restore = False, supd = [], supd_memsize = 0\<rparr>"

text \<open>An update of the given type, transaction and timestamp, not prepared.\<close>

definition ex_upd :: "wt_update_type \<Rightarrow> txnid_t \<Rightarrow> wt_timestamp_t \<Rightarrow> wt_update" where
  "ex_upd k t ts =
     \<lparr>txnid = t, durable_ts = ts, upd_start_ts = ts, upd_type = k,
      prepare_state = WT_PREPARE_INIT, restored_for_rollback = False, upd_data = []\<rparr>"

text \<open>A value cell with start \<open>(20, 3)\<close> and stop \<open>(MAX, MAX)\<close>.\<close>

definition ex_cell :: wt_cell_unpack where
  "ex_cell =
     \<lparr>cell_type = WT_CELL_VALUE,
      cell_tw = \<lparr>durable_start_ts = 20, start_ts = 20, start_txn = 3, durable_stop_ts = 0,
                 stop_ts = 18446744073709551615, stop_txn = 18446744073709551605,
                 prepare = False\<rparr>,
      unpack_prepare = False, unpack_overflow = False, cell_data = [1, 2, 3]\<rparr>"

section \<open>Properties\<close>

subsection \<open>The save decision\<close>

text \<open>
  C6. The save decision \<^verbatim>\<open>__rec_need_save_upd\<close> is the ordered rule set: a prepared
  selection is saved; under \<open>EVICT\<close> with newer updates it is saved; otherwise, if
  neither \<open>HS\<close> nor \<open>IN_MEMORY\<close> is set and the page is not a fixed-length column-store
  page, it is not saved; under \<open>CHECKPOINT\<close> with an empty selection it is not saved;
  in all remaining cases it is saved if and only if neither the stop pair nor the start
  pair of the selected window is globally visible.
\<close>

theorem need_save_upd_ordered_rules:
  "rec_need_save_upd s r sel has_newer =
     first_rule (save_rules r sel has_newer)
       (\<not> txn_visible_all s (stop_txn (tw sel)) (stop_ts (tw sel))
        \<and> \<not> txn_visible_all s (start_txn (tw sel)) (start_ts (tw sel)))"
  by (simp add: rec_need_save_upd_def save_rules_def)

text \<open>The rules at work: a checkpoint with a history store and the update of
  transaction 8 at timestamp 60 selected falls through the four rules and is saved,
  since neither \<open>(60, 8)\<close> nor \<open>(MAX, MAX)\<close> is globally visible.\<close>

theorem need_save_upd_ordered_rules_witness:
  "rec_need_save_upd ex_session (ex_reconcile {WT_REC_HS, WT_REC_CHECKPOINT})
     \<lparr>upd = Some 0,
      tw = wt_time_window_set_start (wt_time_window_init ex_session)
             (ex_upd WT_UPDATE_STANDARD 8 60)\<rparr> False"
  using need_save_upd_ordered_rules
    [of ex_session "ex_reconcile {WT_REC_HS, WT_REC_CHECKPOINT}"
        "\<lparr>upd = Some 0,
          tw = wt_time_window_set_start (wt_time_window_init ex_session)
                 (ex_upd WT_UPDATE_STANDARD 8 60)\<rparr>" False]
  by (simp add: save_rules_def ex_session_def ex_reconcile_def ex_upd_def
      wt_time_window_init_def wt_time_window_set_start_def)

subsection \<open>What the stages of the function leave unchanged\<close>

lemma walk_body_frame:
  "flags (reconcile (frame_of (walk_body s u i f))) = flags (reconcile f)
   \<and> last_running (reconcile (frame_of (walk_body s u i f))) = last_running (reconcile f)
   \<and> page (reconcile (frame_of (walk_body s u i f))) = page (reconcile f)
   \<and> supd (reconcile (frame_of (walk_body s u i f))) = supd (reconcile f)
   \<and> chain (frame_of (walk_body s u i f)) = chain f
   \<and> tw (upd_select (frame_of (walk_body s u i f))) = tw (upd_select f)
   \<and> upd_saved (frame_of (walk_body s u i f)) = upd_saved f
   \<and> orig_value_calls (frame_of (walk_body s u i f)) = orig_value_calls f"
  by (simp add: walk_body_def Let_def)

lemma upd_walk_frame:
  "flags (reconcile (upd_walk s us i f)) = flags (reconcile f)
   \<and> last_running (reconcile (upd_walk s us i f)) = last_running (reconcile f)
   \<and> page (reconcile (upd_walk s us i f)) = page (reconcile f)
   \<and> supd (reconcile (upd_walk s us i f)) = supd (reconcile f)
   \<and> chain (upd_walk s us i f) = chain f
   \<and> tw (upd_select (upd_walk s us i f)) = tw (upd_select f)
   \<and> upd_saved (upd_walk s us i f) = upd_saved f
   \<and> orig_value_calls (upd_walk s us i f) = orig_value_calls f"
proof (induction us arbitrary: i f)
  case Nil
  show ?case by simp
next
  case (Cons u us)
  show ?case
  proof (cases "walk_body s u i f")
    case (CONTINUE f')
    with walk_body_frame [of s u i f] Cons.IH [of "Suc i" f'] show ?thesis by simp
  next
    case (LEAVE f')
    with walk_body_frame [of s u i f] show ?thesis by simp
  qed
qed

lemma walk_aborted:
  "\<forall>u\<in>set us. txnid u = WT_TXN_ABORTED s \<Longrightarrow> upd_walk s us i f = f"
  by (induction us arbitrary: i) (simp_all add: walk_body_def)

lemma track_page_frame:
  "upd_select (track_page f) = upd_select f \<and> chain (track_page f) = chain f
   \<and> ret (track_page f) = ret f \<and> upd_saved (track_page f) = upd_saved f
   \<and> orig_value_calls (track_page f) = orig_value_calls f
   \<and> has_newer_updates (track_page f) = has_newer_updates f
   \<and> flags (reconcile (track_page f)) = flags (reconcile f)
   \<and> page (reconcile (track_page f)) = page (reconcile f)
   \<and> supd (reconcile (track_page f)) = supd (reconcile f)
   \<and> cache_write_restore (reconcile (track_page f)) = cache_write_restore (reconcile f)"
  by (simp add: track_page_def)

lemma save_upd_frame:
  "upd_select (save_upd s ins_p rip f) = upd_select f \<and> chain (save_upd s ins_p rip f) = chain f
   \<and> orig_value_calls (save_upd s ins_p rip f) = orig_value_calls f
   \<and> has_newer_updates (save_upd s ins_p rip f) = has_newer_updates f
   \<and> flags (reconcile (save_upd s ins_p rip f)) = flags (reconcile f)
   \<and> page (reconcile (save_upd s ins_p rip f)) = page (reconcile f)"
  by (simp add: save_upd_def rec_update_save_def Let_def split: prod.splits)

lemma append_onpage_value_frame:
  "upd_select (append_onpage_value s vpack f) = upd_select f
   \<and> upd_saved (append_onpage_value s vpack f) = upd_saved f
   \<and> has_newer_updates (append_onpage_value s vpack f) = has_newer_updates f
   \<and> flags (reconcile (append_onpage_value s vpack f)) = flags (reconcile f)
   \<and> supd (reconcile (append_onpage_value s vpack f)) = supd (reconcile f)
   \<and> cache_write_restore (reconcile (append_onpage_value s vpack f)) = cache_write_restore (reconcile f)"
  by (simp add: append_onpage_value_def split: option.splits prod.splits)

lemma append_result:
  "rec_append_orig_value s pg c u_p v_p = (rc, pg', c')
   \<Longrightarrow> rc \<in> {OK, CALLEE_ERROR, NULL_DEREFERENCE}
       \<and> page_type pg' = page_type pg
       \<and> (rc \<noteq> OK \<longrightarrow> c' = c)
       \<and> (c' = c \<or> (\<exists>vp. v_p = Some vp
             \<and> (c' = c @ [orig_value_upd vp]
                 \<or> c' = c @ [orig_tombstone_upd vp, orig_value_upd vp])))"
  by (auto simp: rec_append_orig_value_def Let_def
      split: option.splits list.splits review.splits if_splits)

lemma select_orig_value_frame:
  "has_newer_updates (select_orig_value s vpack j k f) = has_newer_updates f
   \<and> upd_saved (select_orig_value s vpack j k f) = upd_saved f
   \<and> first_txn_upd (select_orig_value s vpack j k f) = first_txn_upd f
   \<and> flags (reconcile (select_orig_value s vpack j k f)) = flags (reconcile f)
   \<and> supd (reconcile (select_orig_value s vpack j k f)) = supd (reconcile f)
   \<and> cache_write_restore (reconcile (select_orig_value s vpack j k f))
       = cache_write_restore (reconcile f)
   \<and> page_type (page (reconcile (select_orig_value s vpack j k f)))
       = page_type (page (reconcile f))"
  by (auto simp: select_orig_value_def Let_def dest: append_result
      split: option.splits prod.splits)


lemma select_before_tombstone_frame:
  "has_newer_updates (select_before_tombstone s vpack j f) = has_newer_updates f
   \<and> upd_saved (select_before_tombstone s vpack j f) = upd_saved f
   \<and> first_txn_upd (select_before_tombstone s vpack j f) = first_txn_upd f
   \<and> flags (reconcile (select_before_tombstone s vpack j f)) = flags (reconcile f)
   \<and> supd (reconcile (select_before_tombstone s vpack j f)) = supd (reconcile f)
   \<and> cache_write_restore (reconcile (select_before_tombstone s vpack j f))
       = cache_write_restore (reconcile f)
   \<and> page_type (page (reconcile (select_before_tombstone s vpack j f)))
       = page_type (page (reconcile f))"
  using select_orig_value_frame
    [of s vpack j "skip_aborted s (drop (Suc j) (chain f)) j"
        "f\<lparr>upd_select := (upd_select f)\<lparr>upd := None\<rparr>\<rparr>"]
  by (simp add: select_before_tombstone_def Let_def split: option.splits)


lemma select_window_frame:
  "has_newer_updates (select_window s vpack f) = has_newer_updates f
   \<and> upd_saved (select_window s vpack f) = upd_saved f
   \<and> first_txn_upd (select_window s vpack f) = first_txn_upd f
   \<and> flags (reconcile (select_window s vpack f)) = flags (reconcile f)
   \<and> supd (reconcile (select_window s vpack f)) = supd (reconcile f)
   \<and> cache_write_restore (reconcile (select_window s vpack f))
       = cache_write_restore (reconcile f)
   \<and> page_type (page (reconcile (select_window s vpack f)))
       = page_type (page (reconcile f))"
proof (cases "upd (upd_select f)")
  case None
  then show ?thesis by (simp add: select_window_def)
next
  case (Some j)
  then show ?thesis
    by (simp add: select_window_def Let_def select_before_tombstone_frame)
qed





lemma finish_frame:
  "has_newer_updates (finish s ins_p rip vpack f2) = has_newer_updates f2
   \<and> flags (reconcile (finish s ins_p rip vpack f2)) = flags (reconcile f2)"
  by (simp add: finish_def Let_def append_onpage_value_frame save_upd_frame track_page_frame)

subsection \<open>The walk\<close>

lemma uncommitted_cong:
  "flags r' = flags r \<Longrightarrow> last_running r' = last_running r
   \<Longrightarrow> uncommitted s r' u = uncommitted s r u"
  by (simp add: uncommitted_def)




lemma uncommitted_seen [simp]:
  "uncommitted s (r\<lparr>updates_seen := x\<rparr>) u = uncommitted s r u"
  by (simp add: uncommitted_def)


lemma walk_body_ret: "ret (frame_of (walk_body s u i f)) = OK \<Longrightarrow> ret f = OK"
  by (simp add: walk_body_def Let_def split: if_splits)



lemma walk_body_first_txn:
  "first_txn_upd (frame_of (walk_body s u i f)) \<noteq> None
   \<longleftrightarrow> first_txn_upd f \<noteq> None \<or> txnid u \<noteq> WT_TXN_ABORTED s"
  by (auto simp add: walk_body_def Let_def)

lemma walk_body_has_newer_keeps:
  "has_newer_updates f \<Longrightarrow> has_newer_updates (frame_of (walk_body s u i f))"
  by (auto simp add: walk_body_def Let_def)


lemma upd_walk_ret: "ret (upd_walk s us i f) = OK \<Longrightarrow> ret f = OK"
proof (induction us arbitrary: i f)
  case Nil
  then show ?case by simp
next
  case (Cons u us)
  show ?case
  proof (cases "walk_body s u i f")
    case (CONTINUE f')
    with Cons.prems Cons.IH [of "Suc i" f'] have "ret f' = OK" by simp
    with CONTINUE walk_body_ret [of s u i f] show ?thesis by simp
  next
    case (LEAVE f')
    with Cons.prems walk_body_ret [of s u i f] show ?thesis by simp
  qed
qed





lemma upd_walk_first_txn_iff:
  "first_txn_upd (upd_walk s us i f) \<noteq> None
   \<longleftrightarrow> first_txn_upd f \<noteq> None \<or> (\<exists>u\<in>set us. txnid u \<noteq> WT_TXN_ABORTED s)"
proof (induction us arbitrary: i f)
  case Nil
  show ?case by simp
next
  case (Cons u us)
  note wb = walk_body_first_txn [of s u i f]
  show ?case
  proof (cases "walk_body s u i f")
    case (CONTINUE f')
    with wb Cons.IH [of "Suc i" f'] show ?thesis by auto
  next
    case (LEAVE f')
    have "txnid u \<noteq> WT_TXN_ABORTED s"
      using LEAVE by (auto simp: walk_body_def Let_def split: if_splits)
    with LEAVE wb show ?thesis by auto
  qed
qed



subsection \<open>When the walk returns \<^verbatim>\<open>EBUSY\<close>\<close>

















lemma upd_walk_ret_range:
  "ret f = OK \<Longrightarrow> ret (upd_walk s us i f) \<in> {OK, EBUSY}"
proof (induction us arbitrary: i f)
  case Nil
  then show ?case by simp
next
  case (Cons u us)
  have wb: "ret (frame_of (walk_body s u i f)) \<in> {OK, EBUSY}"
    "\<forall>f'. walk_body s u i f = CONTINUE f' \<longrightarrow> ret f' = OK"
    using Cons.prems by (auto simp: walk_body_def Let_def)
  show ?case
  proof (cases "walk_body s u i f")
    case (CONTINUE f')
    with wb have "ret f' = OK" by simp
    from Cons.IH [OF this] CONTINUE show ?thesis by simp
  next
    case (LEAVE f')
    with wb show ?thesis by simp
  qed
qed


lemma walk_chain_frame:
  "flags (reconcile (walk_chain s r c)) = flags r
   \<and> last_running (reconcile (walk_chain s r c)) = last_running r
   \<and> page (reconcile (walk_chain s r c)) = page r
   \<and> supd (reconcile (walk_chain s r c)) = supd r
   \<and> chain (walk_chain s r c) = c
   \<and> tw (upd_select (walk_chain s r c)) = wt_time_window_init s
   \<and> \<not> upd_saved (walk_chain s r c)
   \<and> orig_value_calls (walk_chain s r c) = []"
  using upd_walk_frame [of s c 0 "(frame_init s r)\<lparr>chain := c\<rparr>"]
  by (simp add: walk_chain_def frame_init_def)


lemma walk_chain_ret: "ret (walk_chain s r c) \<in> {OK, EBUSY}"
  unfolding walk_chain_def by (rule upd_walk_ret_range) (simp add: frame_init_def)


lemma walk_chain_first_txn:
  "first_txn_upd (walk_chain s r c) \<noteq> None \<longleftrightarrow> (\<exists>u\<in>set c. txnid u \<noteq> WT_TXN_ABORTED s)"
  using upd_walk_first_txn_iff [of s c 0 "(frame_init s r)\<lparr>chain := c\<rparr>"]
  by (simp add: walk_chain_def frame_init_def)




subsection \<open>The paths through the function\<close>

lemma finish_ok: "ret (finish s ins_p rip vpack f2) = OK \<Longrightarrow> ret f2 = OK"
  by (cases "ret f2 = OK") (simp_all add: finish_def)

lemma finish_upd_select:
  "upd (upd_select (finish s ins_p rip vpack f2)) = upd (upd_select f2)
   \<and> (ret f2 = OK \<longrightarrow> tw (upd_select (finish s ins_p rip vpack f2))
                         = fix_out_of_order (tw (upd_select f2)))"
  by (simp add: finish_def Let_def append_onpage_value_frame save_upd_frame track_page_frame)

lemma select_paths:
  fixes s r ins_p rip row_update vpack
  obtains
    (no_chain) "ins_p = None" and "row_update = []"
      and "wt_rec_upd_select s r ins_p rip row_update vpack = frame_init s r"
  | (walk_busy) "ret (walk_chain s r (first_upd ins_p row_update)) = EBUSY"
      and "wt_rec_upd_select s r ins_p rip row_update vpack
             = walk_chain s r (first_upd ins_p row_update)"
  | (no_live) "ret (walk_chain s r (first_upd ins_p row_update)) = OK"
      and "first_txn_upd (walk_chain s r (first_upd ins_p row_update)) = None"
      and "wt_rec_upd_select s r ins_p rip row_update vpack
             = walk_chain s r (first_upd ins_p row_update)"
  | (unclean) "ret (walk_chain s r (first_upd ins_p row_update)) = OK"
      and "first_txn_upd (walk_chain s r (first_upd ins_p row_update)) \<noteq> None"
      and "has_newer_updates (walk_chain s r (first_upd ins_p row_update))"
      and "WT_REC_CLEAN_AFTER_REC \<in> flags r \<or> WT_REC_VISIBILITY_ERR \<in> flags r"
      and "wt_rec_upd_select s r ins_p rip row_update vpack
             = (walk_chain s r (first_upd ins_p row_update))
                 \<lparr>ret := (if WT_REC_VISIBILITY_ERR \<in> flags r then WT_PANIC else EBUSY)\<rparr>"
  | (finished) "ret (walk_chain s r (first_upd ins_p row_update)) = OK"
      and "first_txn_upd (walk_chain s r (first_upd ins_p row_update)) \<noteq> None"
      and "\<not> (has_newer_updates (walk_chain s r (first_upd ins_p row_update))
              \<and> (WT_REC_CLEAN_AFTER_REC \<in> flags r \<or> WT_REC_VISIBILITY_ERR \<in> flags r))"
      and "wt_rec_upd_select s r ins_p rip row_update vpack
             = finish s (map_option ins_ref ins_p) rip vpack
                 (select_window s vpack (walk_chain s r (first_upd ins_p row_update)))"
proof -
  let ?F = "wt_rec_upd_select s r ins_p rip row_update vpack"
  let ?W = "walk_chain s r (first_upd ins_p row_update)"
  have fl: "flags (reconcile ?W) = flags r" using walk_chain_frame [of s r] by simp
  show thesis
  proof (cases "ins_p = None \<and> row_update = []")
    case True
    then have "?F = frame_init s r" by (simp add: wt_rec_upd_select_def)
    with True show thesis by (intro no_chain) simp_all
  next
    case False
    then have "\<not> (ins_p = None \<and> row_update = [])" .
    then have F: "?F = (if ret ?W \<noteq> OK then ?W
                        else after_walk s (map_option ins_ref ins_p) rip vpack ?W)"
      unfolding wt_rec_upd_select_def Let_def by (simp only: if_False)
    show thesis
    proof (cases "ret ?W = OK")
      case nok: False
      with walk_chain_ret [of s r "first_upd ins_p row_update"] have "ret ?W = EBUSY" by simp
      moreover from F nok have "?F = ?W" by (simp only: simp_thms if_True if_False)
      ultimately show thesis by (rule walk_busy)
    next
      case ok: True
      with F have Fa: "?F = after_walk s (map_option ins_ref ins_p) rip vpack ?W"
        by (simp only: simp_thms if_True if_False)
      show thesis
      proof (cases "first_txn_upd ?W = None")
        case True
        with Fa have "?F = ?W" by (simp add: after_walk_def)
        with ok True show thesis by (intro no_live)
      next
        case live: False
        show thesis
        proof (cases "has_newer_updates ?W
            \<and> (WT_REC_CLEAN_AFTER_REC \<in> flags r \<or> WT_REC_VISIBILITY_ERR \<in> flags r)")
          case True
          with Fa live fl
          have "?F = ?W\<lparr>ret := (if WT_REC_VISIBILITY_ERR \<in> flags r then WT_PANIC else EBUSY)\<rparr>"
            by (simp add: after_walk_def)
          with ok live True show thesis by (intro unclean) simp_all
        next
          case False
          with Fa live fl
          have "?F = finish s (map_option ins_ref ins_p) rip vpack (select_window s vpack ?W)"
            by (simp add: after_walk_def)
          with ok live False show thesis by (intro finished)
        qed
      qed
    qed
  qed
qed

subsection \<open>Chains with no live update\<close>

text \<open>
  C10. When the function is called with no update chain, or with a chain in which every
  update is aborted, it returns 0 with an empty selection, the time window at its
  defaults (start \<open>(NONE, NONE)\<close>, stop \<open>(MAX, MAX)\<close>), no saved update recorded, and
  the reconciliation unchanged in every field.
\<close>

theorem no_live_update:
  assumes "\<forall>u \<in> set (first_upd ins_p row_update). txnid u = WT_TXN_ABORTED s"
  shows "ret (wt_rec_upd_select s r ins_p rip row_update vpack) = OK
       \<and> upd (upd_select (wt_rec_upd_select s r ins_p rip row_update vpack)) = None
       \<and> tw (upd_select (wt_rec_upd_select s r ins_p rip row_update vpack))
           = wt_time_window_init s
       \<and> start_ts (wt_time_window_init s) = WT_TS_NONE s
       \<and> start_txn (wt_time_window_init s) = WT_TXN_NONE s
       \<and> stop_ts (wt_time_window_init s) = WT_TS_MAX s
       \<and> stop_txn (wt_time_window_init s) = WT_TXN_MAX s
       \<and> \<not> upd_saved (wt_rec_upd_select s r ins_p rip row_update vpack)
       \<and> reconcile (wt_rec_upd_select s r ins_p rip row_update vpack) = r"
proof -
  have "walk_chain s r (first_upd ins_p row_update)
          = (frame_init s r)\<lparr>chain := first_upd ins_p row_update\<rparr>"
    unfolding walk_chain_def using assms by (rule walk_aborted)
  then show ?thesis
    by (simp add: wt_rec_upd_select_def Let_def after_walk_def frame_init_def wt_time_window_init_def)
qed

text \<open>A chain of two aborted updates, on an eviction.\<close>

theorem no_live_update_witness:
  "ret (wt_rec_upd_select ex_session (ex_reconcile {WT_REC_EVICT, WT_REC_HS}) None 0
          [ex_upd WT_UPDATE_STANDARD 18446744073709551615 30,
           ex_upd WT_UPDATE_TOMBSTONE 18446744073709551615 20] (Some ex_cell)) = OK
   \<and> upd (upd_select
        (wt_rec_upd_select ex_session (ex_reconcile {WT_REC_EVICT, WT_REC_HS}) None 0
          [ex_upd WT_UPDATE_STANDARD 18446744073709551615 30,
           ex_upd WT_UPDATE_TOMBSTONE 18446744073709551615 20] (Some ex_cell))) = None
   \<and> reconcile
        (wt_rec_upd_select ex_session (ex_reconcile {WT_REC_EVICT, WT_REC_HS}) None 0
          [ex_upd WT_UPDATE_STANDARD 18446744073709551615 30,
           ex_upd WT_UPDATE_TOMBSTONE 18446744073709551615 20] (Some ex_cell))
       = ex_reconcile {WT_REC_EVICT, WT_REC_HS}"
proof -
  have "\<forall>u \<in> set (first_upd None
            [ex_upd WT_UPDATE_STANDARD 18446744073709551615 30,
             ex_upd WT_UPDATE_TOMBSTONE 18446744073709551615 20]).
          txnid u = WT_TXN_ABORTED ex_session"
    by (simp add: first_upd_def ex_upd_def ex_session_def)
  from no_live_update
         [where s = ex_session and r = "ex_reconcile {WT_REC_EVICT, WT_REC_HS}" and rip = 0
            and vpack = "Some ex_cell", OF this]
  show ?thesis by simp
qed

subsection \<open>The time window\<close>

lemma fix_ordered: "tw_ordered (fix_out_of_order w)"
  by (auto simp: tw_ordered_def fix_out_of_order_def)

lemma returned_tw:
  assumes ok: "ret (wt_rec_upd_select s r ins_p rip row_update vpack) = OK"
  shows "((\<exists>u\<in>set (first_upd ins_p row_update). txnid u \<noteq> WT_TXN_ABORTED s)
            \<longrightarrow> tw (upd_select (wt_rec_upd_select s r ins_p rip row_update vpack))
                  = fix_out_of_order (composed_tw s r (first_upd ins_p row_update) vpack))
       \<and> ((\<forall>u\<in>set (first_upd ins_p row_update). txnid u = WT_TXN_ABORTED s)
            \<longrightarrow> tw (upd_select (wt_rec_upd_select s r ins_p rip row_update vpack))
                  = wt_time_window_init s)"
proof -
  let ?c = "first_upd ins_p row_update"
  let ?F = "wt_rec_upd_select s r ins_p rip row_update vpack"
  let ?W = "walk_chain s r ?c"
  have twW: "tw (upd_select ?W) = wt_time_window_init s"
    using walk_chain_frame [of s r ?c] by simp
  have live: "first_txn_upd ?W \<noteq> None \<longleftrightarrow> (\<exists>u\<in>set ?c. txnid u \<noteq> WT_TXN_ABORTED s)"
    by (rule walk_chain_first_txn)
  show ?thesis
  proof (cases rule: select_paths [of ins_p row_update s r rip vpack])
    case no_chain
    then have "?c = []" by (simp add: first_upd_def)
    with no_chain show ?thesis by (simp add: frame_init_def)
  next
    case walk_busy
    with ok show ?thesis by simp
  next
    case no_live
    with live twW show ?thesis by simp
  next
    case unclean
    with ok show ?thesis by (simp split: if_splits)
  next
    case finished
    from ok finished(4)
    have "ret (finish s (map_option ins_ref ins_p) rip vpack (select_window s vpack ?W)) = OK"
      by simp
    then have "ret (select_window s vpack ?W) = OK" by (rule finish_ok)
    with finish_upd_select [of s "map_option ins_ref ins_p" rip vpack "select_window s vpack ?W"]
    have "tw (upd_select (finish s (map_option ins_ref ins_p) rip vpack
                 (select_window s vpack ?W)))
            = fix_out_of_order (tw (upd_select (select_window s vpack ?W)))"
      by simp
    with finished(4) have "tw (upd_select ?F) = fix_out_of_order (composed_tw s r ?c vpack)"
      by (simp add: composed_tw_def)
    moreover from finished(2) live have "\<exists>u\<in>set ?c. txnid u \<noteq> WT_TXN_ABORTED s" by simp
    ultimately show ?thesis by blast
  qed
qed

text \<open>
  C3. Let \<open>w\<close> be the time window \<^verbatim>\<open>__wt_rec_upd_select\<close> has composed when it reaches
  the test for a stop that is earlier than the start, and \<open>w'\<close> the window of a call that
  returns 0. For a chain with an update that is not aborted: if the stop of \<open>w\<close> is before
  its start, strictly by timestamp, or with equal timestamps and \<open>stop_txn < start_txn\<close>,
  then \<open>w'\<close> is \<open>w\<close> with the start rewritten to the stop (\<open>start_ts := stop_ts\<close>,
  \<open>start_txn := stop_txn\<close>, \<open>durable_start_ts := durable_stop_ts\<close>) and nothing else
  changed; otherwise \<open>w'\<close> is \<open>w\<close>, in particular when the start pair and the stop pair
  are equal; and \<open>w'\<close> has \<open>start \<le> stop\<close>. For a chain with no such update \<open>w'\<close> is the
  default window, which has \<open>start \<le> stop\<close> when \<open>(NONE, NONE) \<le> (MAX, MAX)\<close>.
\<close>

theorem out_of_order_repair:
  assumes "ret (wt_rec_upd_select s r ins_p rip row_update vpack) = OK"
    and "w = composed_tw s r (first_upd ins_p row_update) vpack"
    and "w' = tw (upd_select (wt_rec_upd_select s r ins_p rip row_update vpack))"
  shows "((\<exists>u\<in>set (first_upd ins_p row_update). txnid u \<noteq> WT_TXN_ABORTED s) \<longrightarrow>
            (stop_ts w < start_ts w \<or> (stop_ts w = start_ts w \<and> stop_txn w < start_txn w)
               \<longrightarrow> w' = w\<lparr>durable_start_ts := durable_stop_ts w, start_ts := stop_ts w,
                           start_txn := stop_txn w\<rparr>)
          \<and> (\<not> (stop_ts w < start_ts w
                   \<or> (stop_ts w = start_ts w \<and> stop_txn w < start_txn w))
               \<longrightarrow> w' = w)
          \<and> (start_ts w = stop_ts w \<and> start_txn w = stop_txn w \<longrightarrow> w' = w)
          \<and> tw_ordered w')
       \<and> ((\<forall>u\<in>set (first_upd ins_p row_update). txnid u = WT_TXN_ABORTED s) \<longrightarrow>
            w' = wt_time_window_init s
          \<and> (tw_ordered (wt_time_window_init s) \<longrightarrow> tw_ordered w'))"
proof (intro conjI impI)
  assume live: "\<exists>u\<in>set (first_upd ins_p row_update). txnid u \<noteq> WT_TXN_ABORTED s"
  with returned_tw [OF assms(1)] assms(2,3) have w': "w' = fix_out_of_order w" by simp
  {
    assume "stop_ts w < start_ts w \<or> (stop_ts w = start_ts w \<and> stop_txn w < start_txn w)"
    with w' show "w' = w\<lparr>durable_start_ts := durable_stop_ts w, start_ts := stop_ts w,
                          start_txn := stop_txn w\<rparr>"
      by (simp add: fix_out_of_order_def)
  }
  {
    assume "\<not> (stop_ts w < start_ts w \<or> (stop_ts w = start_ts w \<and> stop_txn w < start_txn w))"
    with w' show "w' = w" by (simp add: fix_out_of_order_def)
  }
  {
    assume "start_ts w = stop_ts w \<and> start_txn w = stop_txn w"
    with w' show "w' = w" by (simp add: fix_out_of_order_def)
  }
  from w' show "tw_ordered w'" by (simp add: fix_ordered)
next
  assume dead: "\<forall>u\<in>set (first_upd ins_p row_update). txnid u = WT_TXN_ABORTED s"
  with returned_tw [OF assms(1)] assms(3) show w': "w' = wt_time_window_init s" by simp
  assume "tw_ordered (wt_time_window_init s)"
  with w' show "tw_ordered w'" by simp
qed

text \<open>A tombstone of transaction 9 at timestamp 10 over the cell that starts at
  \<open>(20, 3)\<close>: the composed window starts at \<open>(20, 3)\<close> and stops at \<open>(10, 9)\<close>, and the
  call returns the window that starts and stops at \<open>(10, 9)\<close>, with the durable start
  timestamp 10 of the stop. A tombstone of transaction 7 at timestamp 40 over a value of
  transaction 5 at timestamp 30: the composed window is in order and is returned as it
  is.\<close>

theorem out_of_order_repair_witness:
  "ret (wt_rec_upd_select ex_session (ex_reconcile {WT_REC_HS, WT_REC_CHECKPOINT}) None 0
          [ex_upd WT_UPDATE_TOMBSTONE 9 10] (Some ex_cell)) = OK
   \<and> composed_tw ex_session (ex_reconcile {WT_REC_HS, WT_REC_CHECKPOINT})
        [ex_upd WT_UPDATE_TOMBSTONE 9 10] (Some ex_cell)
       = \<lparr>durable_start_ts = 20, start_ts = 20, start_txn = 3,
          durable_stop_ts = 10, stop_ts = 10, stop_txn = 9, prepare = False\<rparr>
   \<and> tw (upd_select
        (wt_rec_upd_select ex_session (ex_reconcile {WT_REC_HS, WT_REC_CHECKPOINT}) None 0
           [ex_upd WT_UPDATE_TOMBSTONE 9 10] (Some ex_cell)))
       = \<lparr>durable_start_ts = 10, start_ts = 10, start_txn = 9,
          durable_stop_ts = 10, stop_ts = 10, stop_txn = 9, prepare = False\<rparr>
   \<and> ret (wt_rec_upd_select ex_session (ex_reconcile {WT_REC_HS, WT_REC_CHECKPOINT}) None 0
          [ex_upd WT_UPDATE_TOMBSTONE 7 40, ex_upd WT_UPDATE_STANDARD 5 30] None) = OK
   \<and> composed_tw ex_session (ex_reconcile {WT_REC_HS, WT_REC_CHECKPOINT})
        [ex_upd WT_UPDATE_TOMBSTONE 7 40, ex_upd WT_UPDATE_STANDARD 5 30] None
       = \<lparr>durable_start_ts = 30, start_ts = 30, start_txn = 5,
          durable_stop_ts = 40, stop_ts = 40, stop_txn = 7, prepare = False\<rparr>
   \<and> tw (upd_select
        (wt_rec_upd_select ex_session (ex_reconcile {WT_REC_HS, WT_REC_CHECKPOINT}) None 0
           [ex_upd WT_UPDATE_TOMBSTONE 7 40, ex_upd WT_UPDATE_STANDARD 5 30] None))
       = \<lparr>durable_start_ts = 30, start_ts = 30, start_txn = 5,
          durable_stop_ts = 40, stop_ts = 40, stop_txn = 7, prepare = False\<rparr>"
proof -
  let ?r = "ex_reconcile {WT_REC_HS, WT_REC_CHECKPOINT}"
  let ?a = "[ex_upd WT_UPDATE_TOMBSTONE 9 10]"
  let ?b = "[ex_upd WT_UPDATE_TOMBSTONE 7 40, ex_upd WT_UPDATE_STANDARD 5 30]"
  let ?wa = "\<lparr>durable_start_ts = 20, start_ts = 20, start_txn = 3,
              durable_stop_ts = 10, stop_ts = 10, stop_txn = 9, prepare = False\<rparr>"
  let ?wb = "\<lparr>durable_start_ts = 30, start_ts = 30, start_txn = 5,
              durable_stop_ts = 40, stop_ts = 40, stop_txn = 7, prepare = False\<rparr>"
  have oka: "ret (wt_rec_upd_select ex_session ?r None 0 ?a (Some ex_cell)) = OK" by code_simp
  have okb: "ret (wt_rec_upd_select ex_session ?r None 0 ?b None) = OK" by code_simp
  have ca: "?wa = composed_tw ex_session ?r (first_upd None ?a) (Some ex_cell)" by code_simp
  have cb: "?wb = composed_tw ex_session ?r (first_upd None ?b) None" by code_simp
  have la: "\<exists>u\<in>set (first_upd None ?a). txnid u \<noteq> WT_TXN_ABORTED ex_session" by code_simp
  have lb: "\<exists>u\<in>set (first_upd None ?b). txnid u \<noteq> WT_TXN_ABORTED ex_session" by code_simp
  from out_of_order_repair [OF oka ca refl] la
  have ra: "tw (upd_select (wt_rec_upd_select ex_session ?r None 0 ?a (Some ex_cell)))
      = \<lparr>durable_start_ts = 10, start_ts = 10, start_txn = 9,
         durable_stop_ts = 10, stop_ts = 10, stop_txn = 9, prepare = False\<rparr>"
    by simp
  from out_of_order_repair [OF okb cb refl] lb
  have rb: "tw (upd_select (wt_rec_upd_select ex_session ?r None 0 ?b None)) = ?wb"
    by simp
  from ca have ca': "composed_tw ex_session ?r ?a (Some ex_cell) = ?wa"
    by (simp add: first_upd_def)
  from cb have cb': "composed_tw ex_session ?r ?b None = ?wb"
    by (simp add: first_upd_def)
  from oka ca' ra okb cb' rb show ?thesis by (intro conjI)
qed

subsection \<open>The update the function selects\<close>







subsection \<open>The return of \<^verbatim>\<open>EBUSY\<close>\<close>





subsection \<open>The saved update\<close>

lemma save_upd_supd:
  assumes "\<not> upd_saved f" and "upd_saved (save_upd s ins_p rip f)"
  shows "\<exists>e. supd (reconcile (save_upd s ins_p rip f)) = supd (reconcile f) @ [e]
           \<and> (restore e \<longleftrightarrow> WT_REC_EVICT \<in> flags (reconcile f)
                 \<and> (has_newer_updates f \<or> conn_in_memory s
                     \<or> page_type (page (reconcile f)) = WT_PAGE_COL_FIX))
           \<and> (restore e \<longrightarrow> cache_write_restore (reconcile (save_upd s ins_p rip f)))"
  using assms
  by (auto simp add: save_upd_def rec_update_save_def Let_def split: if_splits)

lemma finish_path:
  assumes "ret f2 = OK"
  obtains (save_failed) f3 where "upd_select f3 = (upd_select f2)\<lparr>tw := fix_out_of_order (tw (upd_select f2))\<rparr>"
      and "chain f3 = chain f2" and "upd_saved f3 = upd_saved f2"
      and "orig_value_calls f3 = orig_value_calls f2"
      and "has_newer_updates f3 = has_newer_updates f2"
      and "flags (reconcile f3) = flags (reconcile f2)"
      and "page (reconcile f3) = page (reconcile f2)"
      and "supd (reconcile f3) = supd (reconcile f2)"
      and "ret f3 = OK"
      and "ret (save_upd s ins_p rip f3) \<noteq> OK"
      and "finish s ins_p rip vpack f2 = save_upd s ins_p rip f3"
  | (save_done) f3 where "upd_select f3 = (upd_select f2)\<lparr>tw := fix_out_of_order (tw (upd_select f2))\<rparr>"
      and "chain f3 = chain f2" and "upd_saved f3 = upd_saved f2"
      and "orig_value_calls f3 = orig_value_calls f2"
      and "has_newer_updates f3 = has_newer_updates f2"
      and "flags (reconcile f3) = flags (reconcile f2)"
      and "page (reconcile f3) = page (reconcile f2)"
      and "supd (reconcile f3) = supd (reconcile f2)"
      and "ret f3 = OK"
      and "ret (save_upd s ins_p rip f3) = OK"
      and "finish s ins_p rip vpack f2 = append_onpage_value s vpack (save_upd s ins_p rip f3)"
proof -
  let ?f3 = "track_page
               (f2\<lparr>upd_select := (upd_select f2)\<lparr>tw := fix_out_of_order (tw (upd_select f2))\<rparr>\<rparr>)"
  have p: "upd_select ?f3 = (upd_select f2)\<lparr>tw := fix_out_of_order (tw (upd_select f2))\<rparr>"
    "chain ?f3 = chain f2" "upd_saved ?f3 = upd_saved f2"
    "orig_value_calls ?f3 = orig_value_calls f2"
    "has_newer_updates ?f3 = has_newer_updates f2"
    "flags (reconcile ?f3) = flags (reconcile f2)"
    "page (reconcile ?f3) = page (reconcile f2)"
    "supd (reconcile ?f3) = supd (reconcile f2)"
    "ret ?f3 = OK"
    using assms by (simp_all add: track_page_frame)
  show thesis
  proof (cases "ret (save_upd s ins_p rip ?f3) = OK")
    case True
    with assms
    have "finish s ins_p rip vpack f2 = append_onpage_value s vpack (save_upd s ins_p rip ?f3)"
      by (simp add: finish_def Let_def)
    with p True show thesis by (intro save_done [of ?f3])
  next
    case False
    with assms have "finish s ins_p rip vpack f2 = save_upd s ins_p rip ?f3"
      by (simp add: finish_def Let_def)
    with p False show thesis by (intro save_failed [of ?f3])
  qed
qed

lemma finish_saved:
  assumes ns: "\<not> upd_saved f2" and sv: "upd_saved (finish s ins_p rip vpack f2)"
  shows "\<exists>e. supd (reconcile (finish s ins_p rip vpack f2)) = supd (reconcile f2) @ [e]
           \<and> (restore e \<longleftrightarrow> WT_REC_EVICT \<in> flags (reconcile f2)
                 \<and> (has_newer_updates (finish s ins_p rip vpack f2) \<or> conn_in_memory s
                     \<or> page_type (page (reconcile f2)) = WT_PAGE_COL_FIX))
           \<and> (restore e \<longrightarrow> cache_write_restore (reconcile (finish s ins_p rip vpack f2)))"
proof (cases "ret f2 = OK")
  case False
  then have "finish s ins_p rip vpack f2 = f2" by (simp add: finish_def)
  with ns sv show ?thesis by simp
next
  case True
  have hn: "has_newer_updates (finish s ins_p rip vpack f2) = has_newer_updates f2"
    by (simp add: finish_frame)
  from True show ?thesis
  proof (cases rule: finish_path [of f2 s ins_p rip vpack])
    case (save_failed f3)
    from sv save_failed(11) have s4: "upd_saved (save_upd s ins_p rip f3)" by simp
    from ns save_failed(3) have "\<not> upd_saved f3" by simp
    from save_upd_supd [OF this s4] save_failed(5,6,7,8,11) hn show ?thesis by simp
  next
    case (save_done f3)
    from sv save_done(11) have s4: "upd_saved (save_upd s ins_p rip f3)"
      by (simp add: append_onpage_value_frame)
    from ns save_done(3) have "\<not> upd_saved f3" by simp
    from save_upd_supd [OF this s4] save_done(5,6,7,8,11) hn show ?thesis
      by (simp add: append_onpage_value_frame)
  qed
qed

lemma returned_saved:
  assumes sv: "upd_saved (wt_rec_upd_select s r ins_p rip row_update vpack)"
  shows "\<exists>e. supd (reconcile (wt_rec_upd_select s r ins_p rip row_update vpack)) = supd r @ [e]
           \<and> (restore e \<longleftrightarrow> WT_REC_EVICT \<in> flags r
                 \<and> (has_newer_updates (wt_rec_upd_select s r ins_p rip row_update vpack)
                     \<or> conn_in_memory s \<or> page_type (page r) = WT_PAGE_COL_FIX))
           \<and> (restore e \<longrightarrow>
                 cache_write_restore
                   (reconcile (wt_rec_upd_select s r ins_p rip row_update vpack)))"
proof -
  let ?c = "first_upd ins_p row_update"
  let ?W = "walk_chain s r ?c"
  note wf = walk_chain_frame [of s r ?c]
  show ?thesis
  proof (cases rule: select_paths [of ins_p row_update s r rip vpack])
    case no_chain
    with sv show ?thesis by (simp add: frame_init_def)
  next
    case walk_busy
    with sv wf show ?thesis by simp
  next
    case no_live
    with sv wf show ?thesis by simp
  next
    case unclean
    with sv wf show ?thesis by simp
  next
    case finished
    let ?g = "select_window s vpack ?W"
    have g: "\<not> upd_saved ?g" "flags (reconcile ?g) = flags r"
      "supd (reconcile ?g) = supd r" "page_type (page (reconcile ?g)) = page_type (page r)"
      using wf by (simp_all add: select_window_frame)
    from sv finished(4) have "upd_saved (finish s (map_option ins_ref ins_p) rip vpack ?g)"
      by simp
    from finish_saved [OF g(1) this] g finished(4) show ?thesis by simp
  qed
qed

text \<open>
  C7 (as amended). Whenever a save is recorded, it is one entry added at the end of the
  saved updates of the reconciliation, and its restore flag is set exactly when the
  reconciliation is an eviction and there are newer updates, or the database is in
  memory, or the page is a fixed-length column store page; and whenever the restore
  flag is set, \<^verbatim>\<open>cache_write_restore\<close> of the reconciliation is set.
\<close>

theorem restore_flag:
  assumes "upd_saved (wt_rec_upd_select s r ins_p rip row_update vpack)"
  shows "\<exists>e. supd (reconcile (wt_rec_upd_select s r ins_p rip row_update vpack)) = supd r @ [e]
           \<and> (restore e \<longleftrightarrow> WT_REC_EVICT \<in> flags r
                 \<and> (has_newer_updates (wt_rec_upd_select s r ins_p rip row_update vpack)
                     \<or> conn_in_memory s \<or> page_type (page r) = WT_PAGE_COL_FIX))
           \<and> (restore e \<longrightarrow>
                 cache_write_restore
                   (reconcile (wt_rec_upd_select s r ins_p rip row_update vpack)))"
  using assms by (rule returned_saved)

text \<open>An eviction over a value of transaction 12, which is uncommitted, and below it
  a value of transaction 4: the value of transaction 4 is selected and saved, with the
  restore flag set, and \<^verbatim>\<open>cache_write_restore\<close> is set.\<close>

theorem restore_flag_witness:
  "upd_saved (wt_rec_upd_select ex_session (ex_reconcile {WT_REC_EVICT, WT_REC_HS}) None 0
      [ex_upd WT_UPDATE_STANDARD 12 70, ex_upd WT_UPDATE_STANDARD 4 25] None)
   \<and> supd (reconcile
        (wt_rec_upd_select ex_session (ex_reconcile {WT_REC_EVICT, WT_REC_HS}) None 0
          [ex_upd WT_UPDATE_STANDARD 12 70, ex_upd WT_UPDATE_STANDARD 4 25] None))
       = [\<lparr>supd_ins = None, supd_ripcip = 0, onpage_upd = Some 1, restore = True\<rparr>]
   \<and> cache_write_restore (reconcile
        (wt_rec_upd_select ex_session (ex_reconcile {WT_REC_EVICT, WT_REC_HS}) None 0
          [ex_upd WT_UPDATE_STANDARD 12 70, ex_upd WT_UPDATE_STANDARD 4 25] None))"
proof -
  let ?r = "ex_reconcile {WT_REC_EVICT, WT_REC_HS}"
  let ?c = "[ex_upd WT_UPDATE_STANDARD 12 70, ex_upd WT_UPDATE_STANDARD 4 25]"
  let ?F = "wt_rec_upd_select ex_session ?r None 0 ?c None"
  have sv: "upd_saved ?F" by code_simp
  have sp: "supd (reconcile ?F)
      = [\<lparr>supd_ins = None, supd_ripcip = 0, onpage_upd = Some 1, restore = True\<rparr>]"
    by code_simp
  from restore_flag [OF sv] sp have "cache_write_restore (reconcile ?F)" by auto
  with sv sp show ?thesis by simp
qed

text \<open>A checkpoint of a fixed-length column store page over a value of transaction 8
  that is not globally visible: the save is recorded, there is no history store to
  spill to, and the restore flag is not set. The same for a checkpoint of an in-memory
  database.\<close>

theorem restore_flag_counterexample:
  "upd_saved (wt_rec_upd_select ex_session
      ((ex_reconcile {WT_REC_CHECKPOINT})
         \<lparr>page := \<lparr>page_type = WT_PAGE_COL_FIX, memory_footprint = 0\<rparr>\<rparr>) None 0
      [ex_upd WT_UPDATE_STANDARD 8 60] None)
   \<and> ret (wt_rec_upd_select ex_session
      ((ex_reconcile {WT_REC_CHECKPOINT})
         \<lparr>page := \<lparr>page_type = WT_PAGE_COL_FIX, memory_footprint = 0\<rparr>\<rparr>) None 0
      [ex_upd WT_UPDATE_STANDARD 8 60] None) = OK
   \<and> supd (reconcile (wt_rec_upd_select ex_session
      ((ex_reconcile {WT_REC_CHECKPOINT})
         \<lparr>page := \<lparr>page_type = WT_PAGE_COL_FIX, memory_footprint = 0\<rparr>\<rparr>) None 0
      [ex_upd WT_UPDATE_STANDARD 8 60] None))
       = [\<lparr>supd_ins = None, supd_ripcip = 0, onpage_upd = Some 0, restore = False\<rparr>]
   \<and> \<not> cache_write_restore (reconcile (wt_rec_upd_select ex_session
      ((ex_reconcile {WT_REC_CHECKPOINT})
         \<lparr>page := \<lparr>page_type = WT_PAGE_COL_FIX, memory_footprint = 0\<rparr>\<rparr>) None 0
      [ex_upd WT_UPDATE_STANDARD 8 60] None))
   \<and> conn_in_memory (ex_session\<lparr>conn_in_memory := True\<rparr>)
   \<and> upd_saved (wt_rec_upd_select (ex_session\<lparr>conn_in_memory := True\<rparr>)
      (ex_reconcile {WT_REC_CHECKPOINT, WT_REC_IN_MEMORY}) None 0
      [ex_upd WT_UPDATE_STANDARD 8 60] None)
   \<and> supd (reconcile (wt_rec_upd_select (ex_session\<lparr>conn_in_memory := True\<rparr>)
      (ex_reconcile {WT_REC_CHECKPOINT, WT_REC_IN_MEMORY}) None 0
      [ex_upd WT_UPDATE_STANDARD 8 60] None))
       = [\<lparr>supd_ins = None, supd_ripcip = 0, onpage_upd = Some 0, restore = False\<rparr>]"
  by code_simp

subsection \<open>The original value and a prepared cell\<close>

lemma review_prepared:
  assumes "unpack_prepare vp"
    and "upd_type u \<noteq> WT_UPDATE_TOMBSTONE \<or> (\<exists>x\<in>set us. upd_type x \<noteq> WT_UPDATE_TOMBSTONE)"
  shows "review_upd_list s vp u us oldest = NO_WORK"
  using assms
proof (induction us arbitrary: u oldest)
  case Nil
  then show ?case by (simp add: review_upd_list.simps [of s vp u "[]" oldest])
next
  case (Cons u' us')
  show ?case
  proof (cases "upd_type u \<noteq> WT_UPDATE_TOMBSTONE")
    case True
    with Cons.prems(1) show ?thesis
      by (simp add: review_upd_list.simps [of s vp u "u' # us'" oldest])
  next
    case False
    with Cons.prems(2)
    have "upd_type u' \<noteq> WT_UPDATE_TOMBSTONE
          \<or> (\<exists>x\<in>set us'. upd_type x \<noteq> WT_UPDATE_TOMBSTONE)"
      by simp
    with Cons.prems(1)
    have "review_upd_list s vp u' us' o' = NO_WORK" for o'
      by (rule Cons.IH)
    then show ?thesis
      by (simp add: review_upd_list.simps [of s vp u "u' # us'" oldest] Let_def)
  qed
qed

lemma review_tombstones:
  assumes "upd_type u = WT_UPDATE_TOMBSTONE"
    and "\<forall>x\<in>set us. upd_type x = WT_UPDATE_TOMBSTONE"
  shows "review_upd_list s vp u us oldest
           = review_upd_list s (vp\<lparr>unpack_prepare := False\<rparr>) u us oldest"
  using assms
proof (induction us arbitrary: u oldest)
  case Nil
  then show ?case
    by (simp add: review_upd_list.simps [of s vp u "[]" oldest]
        review_upd_list.simps [of s "vp\<lparr>unpack_prepare := False\<rparr>" u "[]" oldest])
next
  case (Cons u' us')
  from Cons.prems(2)
  have "review_upd_list s vp u' us' o'
          = review_upd_list s (vp\<lparr>unpack_prepare := False\<rparr>) u' us' o'" for o'
    by (intro Cons.IH) simp_all
  with Cons.prems(1) show ?case
    by (simp add: review_upd_list.simps [of s vp u "u' # us'" oldest]
        review_upd_list.simps [of s "vp\<lparr>unpack_prepare := False\<rparr>" u "u' # us'" oldest]
        Let_def)
qed

lemma append_prepared_skip:
  assumes "unpack_prepare vp" and "i < length c"
    and "\<exists>u\<in>set (drop i c). upd_type u \<noteq> WT_UPDATE_TOMBSTONE"
  shows "rec_append_orig_value s pg c (Some i) (Some vp) = (OK, pg, c)"
proof -
  from assms(2) have d: "drop i c = c ! i # drop (Suc i) c"
    by (simp add: Cons_nth_drop_Suc)
  with assms(3)
  have "upd_type (c ! i) \<noteq> WT_UPDATE_TOMBSTONE
        \<or> (\<exists>x\<in>set (drop (Suc i) c). upd_type x \<noteq> WT_UPDATE_TOMBSTONE)"
    by simp
  with assms(1) have "review_upd_list s vp (c ! i) (drop (Suc i) c) None = NO_WORK"
    by (rule review_prepared)
  with d show ?thesis by (simp add: rec_append_orig_value_def)
qed

lemma append_prepared_tombstones:
  assumes "i < length c" and "\<forall>u\<in>set (drop i c). upd_type u = WT_UPDATE_TOMBSTONE"
  shows "rec_append_orig_value s pg c (Some i) (Some vp)
           = rec_append_orig_value s pg c (Some i) (Some (vp\<lparr>unpack_prepare := False\<rparr>))"
proof -
  from assms(1) have d: "drop i c = c ! i # drop (Suc i) c"
    by (simp add: Cons_nth_drop_Suc)
  with assms(2) have "upd_type (c ! i) = WT_UPDATE_TOMBSTONE"
    and "\<forall>x\<in>set (drop (Suc i) c). upd_type x = WT_UPDATE_TOMBSTONE"
    by simp_all
  then have "review_upd_list s vp (c ! i) (drop (Suc i) c) None
      = review_upd_list s (vp\<lparr>unpack_prepare := False\<rparr>) (c ! i) (drop (Suc i) c) None"
    by (rule review_tombstones)
  with d show ?thesis
    by (simp add: rec_append_orig_value_def has_stop_pair_def orig_value_upd_def
        orig_tombstone_upd_def cong: review.case_cong option.case_cong if_cong)
qed

text \<open>
  C8 (as amended). When the cell is marked prepared and \<^verbatim>\<open>__rec_append_orig_value\<close> is
  called with the update at position \<open>i\<close> of the chain: if that update or any update
  after it is not a tombstone, the function returns 0 with the page and the chain as
  they are, in particular if the update at \<open>i\<close> itself is not a tombstone; if they are
  all tombstones, the function does what it does for the same cell not marked prepared,
  so the other conditions decide whether the value is appended.
\<close>

theorem prepared_cell_append:
  assumes "unpack_prepare vp" and "i < length c"
  shows "((\<exists>u\<in>set (drop i c). upd_type u \<noteq> WT_UPDATE_TOMBSTONE)
            \<longrightarrow> rec_append_orig_value s pg c (Some i) (Some vp) = (OK, pg, c))
       \<and> (upd_type (c ! i) \<noteq> WT_UPDATE_TOMBSTONE
            \<longrightarrow> rec_append_orig_value s pg c (Some i) (Some vp) = (OK, pg, c))
       \<and> ((\<forall>u\<in>set (drop i c). upd_type u = WT_UPDATE_TOMBSTONE)
            \<longrightarrow> rec_append_orig_value s pg c (Some i) (Some vp)
                  = rec_append_orig_value s pg c (Some i)
                      (Some (vp\<lparr>unpack_prepare := False\<rparr>)))"
proof (intro conjI impI)
  assume "\<exists>u\<in>set (drop i c). upd_type u \<noteq> WT_UPDATE_TOMBSTONE"
  with assms show "rec_append_orig_value s pg c (Some i) (Some vp) = (OK, pg, c)"
    by (rule append_prepared_skip)
next
  assume "upd_type (c ! i) \<noteq> WT_UPDATE_TOMBSTONE"
  with assms(2) have "\<exists>u\<in>set (drop i c). upd_type u \<noteq> WT_UPDATE_TOMBSTONE"
    by (auto simp add: Cons_nth_drop_Suc [symmetric])
  with assms show "rec_append_orig_value s pg c (Some i) (Some vp) = (OK, pg, c)"
    by (rule append_prepared_skip)
next
  assume "\<forall>u\<in>set (drop i c). upd_type u = WT_UPDATE_TOMBSTONE"
  with assms(2) show "rec_append_orig_value s pg c (Some i) (Some vp)
      = rec_append_orig_value s pg c (Some i) (Some (vp\<lparr>unpack_prepare := False\<rparr>))"
    by (rule append_prepared_tombstones)
qed

text \<open>The cell of the examples marked prepared. Called with a value of transaction 8,
  the function leaves the chain as it is; called with a tombstone of transaction 9 that
  is the whole chain, it appends the value of the cell.\<close>

theorem prepared_cell_append_witness:
  "unpack_prepare (ex_cell\<lparr>unpack_prepare := True\<rparr>)
   \<and> rec_append_orig_value ex_session (page (ex_reconcile {})) [ex_upd WT_UPDATE_STANDARD 8 40]
        (Some 0) (Some (ex_cell\<lparr>unpack_prepare := True\<rparr>))
       = (OK, page (ex_reconcile {}), [ex_upd WT_UPDATE_STANDARD 8 40])
   \<and> rec_append_orig_value ex_session (page (ex_reconcile {})) [ex_upd WT_UPDATE_TOMBSTONE 9 50]
        (Some 0) (Some (ex_cell\<lparr>unpack_prepare := True\<rparr>))
       = (OK, \<lparr>page_type = WT_PAGE_ROW_LEAF, memory_footprint = 43\<rparr>,
          [ex_upd WT_UPDATE_TOMBSTONE 9 50, orig_value_upd ex_cell])"
proof -
  let ?vp = "ex_cell\<lparr>unpack_prepare := True\<rparr>"
  let ?pg = "page (ex_reconcile {})"
  have p: "unpack_prepare ?vp" by simp
  have a: "\<exists>u\<in>set (drop 0 [ex_upd WT_UPDATE_STANDARD 8 40]).
             upd_type u \<noteq> WT_UPDATE_TOMBSTONE"
    by code_simp
  have b: "\<forall>u\<in>set (drop 0 [ex_upd WT_UPDATE_TOMBSTONE 9 50]).
             upd_type u = WT_UPDATE_TOMBSTONE"
    by code_simp
  have e: "?vp\<lparr>unpack_prepare := False\<rparr> = ex_cell" by code_simp
  have n: "rec_append_orig_value ex_session ?pg [ex_upd WT_UPDATE_TOMBSTONE 9 50]
        (Some 0) (Some ex_cell)
       = (OK, \<lparr>page_type = WT_PAGE_ROW_LEAF, memory_footprint = 43\<rparr>,
          [ex_upd WT_UPDATE_TOMBSTONE 9 50, orig_value_upd ex_cell])"
    by code_simp
  from prepared_cell_append [of ?vp 0 "[ex_upd WT_UPDATE_STANDARD 8 40]" ex_session ?pg] p a
  have r1: "rec_append_orig_value ex_session ?pg [ex_upd WT_UPDATE_STANDARD 8 40]
        (Some 0) (Some ?vp) = (OK, ?pg, [ex_upd WT_UPDATE_STANDARD 8 40])"
    by simp
  from prepared_cell_append [of ?vp 0 "[ex_upd WT_UPDATE_TOMBSTONE 9 50]" ex_session ?pg] p b
  have "rec_append_orig_value ex_session ?pg [ex_upd WT_UPDATE_TOMBSTONE 9 50]
        (Some 0) (Some ?vp)
      = rec_append_orig_value ex_session ?pg [ex_upd WT_UPDATE_TOMBSTONE 9 50]
        (Some 0) (Some (?vp\<lparr>unpack_prepare := False\<rparr>))"
    by simp
  with e n have r2: "rec_append_orig_value ex_session ?pg [ex_upd WT_UPDATE_TOMBSTONE 9 50]
        (Some 0) (Some ?vp)
       = (OK, \<lparr>page_type = WT_PAGE_ROW_LEAF, memory_footprint = 43\<rparr>,
          [ex_upd WT_UPDATE_TOMBSTONE 9 50, orig_value_upd ex_cell])"
    by simp
  from p r1 r2 show ?thesis by (intro conjI)
qed

text \<open>An input on which the property as first stated fails: the cell is marked
  prepared, the function is called with the head of the chain, a tombstone of
  transaction 9, and below it is a value of transaction 8. The function returns 0 with
  the chain as it is, although the head is a tombstone; for the same cell not marked
  prepared it appends the value of the cell.\<close>

theorem prepared_cell_append_counterexample:
  "unpack_prepare (ex_cell\<lparr>unpack_prepare := True\<rparr>)
   \<and> upd_type ([ex_upd WT_UPDATE_TOMBSTONE 9 50, ex_upd WT_UPDATE_STANDARD 8 40] ! 0)
       = WT_UPDATE_TOMBSTONE
   \<and> rec_append_orig_value ex_session (page (ex_reconcile {}))
        [ex_upd WT_UPDATE_TOMBSTONE 9 50, ex_upd WT_UPDATE_STANDARD 8 40]
        (Some 0) (Some (ex_cell\<lparr>unpack_prepare := True\<rparr>))
       = (OK, page (ex_reconcile {}),
          [ex_upd WT_UPDATE_TOMBSTONE 9 50, ex_upd WT_UPDATE_STANDARD 8 40])
   \<and> rec_append_orig_value ex_session (page (ex_reconcile {}))
        [ex_upd WT_UPDATE_TOMBSTONE 9 50, ex_upd WT_UPDATE_STANDARD 8 40]
        (Some 0) (Some ex_cell)
       = (OK, \<lparr>page_type = WT_PAGE_ROW_LEAF, memory_footprint = 43\<rparr>,
          [ex_upd WT_UPDATE_TOMBSTONE 9 50, ex_upd WT_UPDATE_STANDARD 8 40,
           orig_value_upd ex_cell])"
  by code_simp

subsection \<open>The update below a selected tombstone\<close>













subsection \<open>The copy of the on-page value at the end of the function\<close>










subsection \<open>The calls of \<^verbatim>\<open>__rec_append_orig_value\<close>\<close>







subsection \<open>A chain whose only update that is not aborted is a tombstone\<close>





subsection \<open>The kind of the selected update\<close>






end
